theory Spec2Isabelle
  imports Complex_Main
begin

section \<open>NovaPay fraud detection: the request encoder and the scoring handler\<close>

text \<open>
  A shallow embedding of \<^verbatim>\<open>webapp/app.py\<close>: the constant tables, \<^verbatim>\<open>preprocess_input\<close>,
  \<^verbatim>\<open>predict\<close> and \<^verbatim>\<open>get_recommendation\<close>.

  Conventions of the embedding.
  \<^item> A Python \<^verbatim>\<open>float\<close> is read as the real number it denotes and a float literal as the
    decimal it is written as; rounding, \<^verbatim>\<open>inf\<close> and \<^verbatim>\<open>nan\<close> are not represented. The one
    float operation of the source that raises, \<^verbatim>\<open>float()\<close> of an \<^verbatim>\<open>int\<close> beyond the range of
    a double, is represented.
  \<^item> An exception is a value: every function that can raise returns a sum, \<open>Inl\<close> the
    exception.
  \<^item> The builtin \<^verbatim>\<open>float()\<close> on a \<^verbatim>\<open>str\<close> is a parameter \<open>P :: string \<Rightarrow> real option\<close> of the
    functions that call it: \<open>P s = None\<close> when \<^verbatim>\<open>float(s)\<close> raises \<^verbatim>\<open>ValueError\<close>.
\<close>

subsection \<open>JSON values and Python equality\<close>

text \<open>What \<^verbatim>\<open>request.json\<close> yields: \<^verbatim>\<open>None\<close>, \<^verbatim>\<open>bool\<close>, \<^verbatim>\<open>int\<close>, \<^verbatim>\<open>float\<close>, \<^verbatim>\<open>str\<close>, \<^verbatim>\<open>list\<close>, \<^verbatim>\<open>dict\<close>.\<close>

datatype json =
    JNull
  | JBool bool
  | JInt int
  | JFloat real
  | JStr string
  | JArr "json list"
  | JObj "string \<Rightarrow> json option"

text \<open>The literals the source compares request values with, and the keys of its tables.\<close>

datatype key = KStr string | KBool bool | KInt int

text \<open>The number a Python value is, when it is one (\<^verbatim>\<open>bool\<close> is a subclass of \<^verbatim>\<open>int\<close>).\<close>

fun num_of :: "json \<Rightarrow> real option" where
  "num_of (JBool b) = Some (if b then 1 else 0)"
| "num_of (JInt i) = Some (of_int i)"
| "num_of (JFloat r) = Some r"
| "num_of _ = None"

text \<open>\<^verbatim>\<open>value == literal\<close>: numbers and booleans compare by value, strings with strings.\<close>

fun py_eq :: "json \<Rightarrow> key \<Rightarrow> bool" where
  "py_eq v (KStr s) = (case v of JStr t \<Rightarrow> t = s | _ \<Rightarrow> False)"
| "py_eq v (KBool b) = (num_of v = Some (if b then 1 else 0))"
| "py_eq v (KInt i) = (num_of v = Some (of_int i))"

text \<open>\<^verbatim>\<open>list\<close> and \<^verbatim>\<open>dict\<close> have no hash: using one as a dictionary key raises \<^verbatim>\<open>TypeError\<close>.\<close>

fun hashable :: "json \<Rightarrow> bool" where
  "hashable (JArr _) = False"
| "hashable (JObj _) = False"
| "hashable _ = True"

subsection \<open>Exceptions\<close>

datatype error =
    ValueError_float string     \<comment> \<open>\<^verbatim>\<open>float(s)\<close>: could not convert string to float: s\<close>
  | TypeError_float json        \<comment> \<open>\<^verbatim>\<open>float(v)\<close> of \<^verbatim>\<open>None\<close>, a \<^verbatim>\<open>list\<close> or a \<^verbatim>\<open>dict\<close>\<close>
  | OverflowError_float         \<comment> \<open>\<^verbatim>\<open>float(i)\<close>: int too large to convert to float\<close>
  | TypeError_unhashable json   \<comment> \<open>\<^verbatim>\<open>mapping.get(v, 0)\<close> of a \<^verbatim>\<open>list\<close> or a \<^verbatim>\<open>dict\<close>\<close>
  | KeyError string             \<comment> \<open>\<^verbatim>\<open>processed[feature]\<close> of an absent feature\<close>
  | NotADict json               \<comment> \<open>the body is not a \<^verbatim>\<open>dict\<close>: \<^verbatim>\<open>TypeError\<close> or \<^verbatim>\<open>AttributeError\<close>\<close>

text \<open>A \<^verbatim>\<open>for\<close> loop over a list whose body may raise: the first exception ends the loop.\<close>

fun for_each :: "('a \<Rightarrow> 's \<Rightarrow> error + 's) \<Rightarrow> 'a list \<Rightarrow> 's \<Rightarrow> error + 's" where
  "for_each body [] s = Inr s"
| "for_each body (x # xs) s =
     (case body x s of Inl e \<Rightarrow> Inl e | Inr s' \<Rightarrow> for_each body xs s')"

subsection \<open>The constant tables\<close>

definition CATEGORICAL_MAPPINGS :: "(string \<times> (key \<times> int) list) list" where
  "CATEGORICAL_MAPPINGS =
    [(''home_country'', [(KStr ''CA'', 0), (KStr ''UK'', 1), (KStr ''US'', 2)]),
     (''source_currency'', [(KStr ''CAD'', 0), (KStr ''GBP'', 1), (KStr ''USD'', 2)]),
     (''dest_currency'', [(KStr ''CAD'', 0), (KStr ''CNY'', 1), (KStr ''EUR'', 2),
        (KStr ''GBP'', 3), (KStr ''INR'', 4), (KStr ''MXN'', 5), (KStr ''NGN'', 6),
        (KStr ''PHP'', 7), (KStr ''USD'', 8)]),
     (''channel'', [(KStr ''ATM'', 0), (KStr ''MOBILE'', 1), (KStr ''WEB'', 2)]),
     (''ip_country'', [(KStr ''CA'', 0), (KStr ''UK'', 1), (KStr ''US'', 2)]),
     (''kyc_tier'', [(KStr ''ENHANCED'', 0), (KStr ''LOW'', 1), (KStr ''STANDARD'', 2)]),
     (''new_device'', [(KBool False, 0), (KBool True, 1)]),
     (''days_only'', [(KStr ''Friday'', 0), (KStr ''Monday'', 1), (KStr ''Saturday'', 2),
        (KStr ''Sunday'', 3), (KStr ''Thursday'', 4), (KStr ''Tuesday'', 5),
        (KStr ''Wednesday'', 6)]),
     (''period_of_the_day'', [(KStr ''Day'', 0), (KStr ''Evening'', 1),
        (KStr ''Late Night'', 2), (KStr ''Night'', 3)]),
     (''fee_bracket'', [(KStr ''high risk'', 0), (KStr ''no risk'', 1)]),
     (''ip_risk_score_bracket'', [(KStr ''high risk'', 0), (KStr ''no risk'', 1)]),
     (''device_trust_bucket'', [(KStr ''high risk'', 0), (KStr ''no risk'', 1)])]"

definition FEATURE_ORDER :: "string list" where
  "FEATURE_ORDER =
    [''home_country'', ''source_currency'', ''dest_currency'', ''channel'',
     ''amount_src'', ''amount_usd'', ''fee'', ''exchange_rate_src_to_dest'',
     ''new_device'', ''ip_country'', ''location_mismatch'', ''ip_risk_score'',
     ''kyc_tier'', ''account_age_days'', ''device_trust_score'',
     ''chargeback_history_count'', ''risk_score_internal'', ''txn_velocity_1h'',
     ''txn_velocity_24h'', ''corridor_risk'', ''days_only'',
     ''period_of_the_day'', ''fee_bracket'', ''ip_risk_score_bracket'',
     ''device_trust_bucket'']"

text \<open>Each entry: the feature, its \<^verbatim>\<open>median\<close> and its \<^verbatim>\<open>iqr\<close>.\<close>

definition ROBUST_SCALE_PARAMS :: "(string \<times> real \<times> real) list" where
  "ROBUST_SCALE_PARAMS =
    [(''amount_src'', 200.0, 300.0),
     (''amount_usd'', 180.0, 280.0),
     (''fee'', 4.0, 5.0),
     (''exchange_rate_src_to_dest'', 1.0, 10.0),
     (''chargeback_history_count'', 0.0, 1.0)]"

text \<open>Each entry: the feature, its \<^verbatim>\<open>mean\<close> and its \<^verbatim>\<open>std\<close>.\<close>

definition STANDARD_SCALE_PARAMS :: "(string \<times> real \<times> real) list" where
  "STANDARD_SCALE_PARAMS =
    [(''ip_risk_score'', 0.5, 0.25),
     (''account_age_days'', 500.0, 300.0),
     (''device_trust_score'', 0.65, 0.25)]"

definition numerical_features :: "string list" where
  "numerical_features =
    [''amount_src'', ''amount_usd'', ''fee'', ''exchange_rate_src_to_dest'',
     ''ip_risk_score'', ''account_age_days'', ''device_trust_score'',
     ''chargeback_history_count'', ''risk_score_internal'',
     ''txn_velocity_1h'', ''txn_velocity_24h'', ''corridor_risk'']"

subsection \<open>\<^verbatim>\<open>preprocess_input\<close>\<close>

text \<open>
  The request dictionary \<^verbatim>\<open>data\<close> and the dictionary \<^verbatim>\<open>processed\<close>. The latter holds
  integer codes and floats; they are kept as reals, as \<^verbatim>\<open>np.array\<close> makes one array of
  floats of them.
\<close>

type_synonym raw = "string \<Rightarrow> json option"
type_synonym processed = "string \<Rightarrow> real option"

text \<open>\<^verbatim>\<open>data.get(feature, default)\<close>.\<close>

definition data_get :: "raw \<Rightarrow> string \<Rightarrow> json \<Rightarrow> json" where
  "data_get d f dflt = (case d f of None \<Rightarrow> dflt | Some v \<Rightarrow> v)"

text \<open>\<^verbatim>\<open>mapping.get(value, 0)\<close>: the code of the first key equal to the value.\<close>

definition mapping_get :: "(key \<times> int) list \<Rightarrow> json \<Rightarrow> int \<Rightarrow> error + int" where
  "mapping_get m v dflt =
     (if \<not> hashable v then Inl (TypeError_unhashable v)
      else case find (\<lambda>kc. py_eq v (fst kc)) m of
             None \<Rightarrow> Inr dflt
           | Some kc \<Rightarrow> Inr (snd kc))"

text \<open>
  The value looked up for a categorical feature: for \<^verbatim>\<open>new_device\<close> it is first replaced by
  \<^verbatim>\<open>value == 'true' or value == True\<close>.
\<close>

definition encode_value :: "string \<Rightarrow> (key \<times> int) list \<Rightarrow> json \<Rightarrow> error + int" where
  "encode_value feature m v =
     mapping_get m
       (if feature = ''new_device''
        then JBool (py_eq v (KStr ''true'') \<or> py_eq v (KBool True))
        else v) 0"

text \<open>The body of the loop over \<^verbatim>\<open>CATEGORICAL_MAPPINGS.items()\<close>.\<close>

definition encode_categorical :: "raw \<Rightarrow> string \<times> (key \<times> int) list \<Rightarrow> processed \<Rightarrow> error + processed" where
  "encode_categorical d fm p =
     (case d (fst fm) of
        None \<Rightarrow> Inr p
      | Some v \<Rightarrow>
          (case encode_value (fst fm) (snd fm) v of
             Inl e \<Rightarrow> Inl e
           | Inr c \<Rightarrow> Inr (p(fst fm \<mapsto> of_int c))))"

text \<open>\<^verbatim>\<open>1 if data.get('location_mismatch') in ['true', True, 1, '1'] else 0\<close>.\<close>

definition location_mismatch :: "raw \<Rightarrow> int" where
  "location_mismatch d =
     (if list_ex (py_eq (data_get d ''location_mismatch'' JNull))
           [KStr ''true'', KBool True, KInt 1, KStr ''1'']
      then 1 else 0)"

text \<open>
  \<^verbatim>\<open>float(i)\<close> of an \<^verbatim>\<open>int\<close> rounds to the nearest double, a tie to the even one, and raises
  \<^verbatim>\<open>OverflowError\<close> when the result would be \<open>2 ^ 1024\<close> or more: the largest double is
  \<open>2 ^ 1024 - 2 ^ 971\<close>, so that is from \<open>2 ^ 1024 - 2 ^ 970\<close> on, in absolute value.
\<close>

definition float_overflows :: "int \<Rightarrow> bool" where
  "float_overflows i \<longleftrightarrow> \<bar>i\<bar> \<ge> 2 ^ 1024 - 2 ^ 970"

text \<open>The builtin \<^verbatim>\<open>float(v)\<close>.\<close>

fun py_float :: "(string \<Rightarrow> real option) \<Rightarrow> json \<Rightarrow> error + real" where
  "py_float P (JBool b) = Inr (if b then 1 else 0)"
| "py_float P (JInt i) = (if float_overflows i then Inl OverflowError_float else Inr (of_int i))"
| "py_float P (JFloat r) = Inr r"
| "py_float P (JStr s) = (case P s of None \<Rightarrow> Inl (ValueError_float s) | Some r \<Rightarrow> Inr r)"
| "py_float P v = Inl (TypeError_float v)"

text \<open>The body of the loop over \<^verbatim>\<open>numerical_features\<close>.\<close>

definition process_numerical :: "(string \<Rightarrow> real option) \<Rightarrow> raw \<Rightarrow> string \<Rightarrow> processed \<Rightarrow> error + processed" where
  "process_numerical P d feature p =
     (case py_float P (data_get d feature (JInt 0)) of
        Inl e \<Rightarrow> Inl e
      | Inr x \<Rightarrow> Inr (p(feature \<mapsto> x)))"

text \<open>
  The body of both scaling loops: \<open>c\<close> is the \<^verbatim>\<open>median\<close> or \<^verbatim>\<open>mean\<close>, \<open>s\<close> the \<^verbatim>\<open>iqr\<close> or
  \<^verbatim>\<open>std\<close>. Reading \<^verbatim>\<open>processed[feature]\<close> raises \<^verbatim>\<open>KeyError\<close> when the feature is absent.
\<close>

definition scale :: "string \<times> real \<times> real \<Rightarrow> processed \<Rightarrow> error + processed" where
  "scale fp p =
     (case fp of (feature, c, s) \<Rightarrow>
        if s \<noteq> 0 then
          (case p feature of
             None \<Rightarrow> Inl (KeyError feature)
           | Some x \<Rightarrow> Inr (p(feature \<mapsto> (x - c) / s)))
        else Inr (p(feature \<mapsto> 0)))"

text \<open>\<^verbatim>\<open>[processed.get(f, 0) for f in FEATURE_ORDER]\<close>, the row of the returned array.\<close>

definition feature_array :: "processed \<Rightarrow> real list" where
  "feature_array p = map (\<lambda>f. case p f of None \<Rightarrow> 0 | Some x \<Rightarrow> x) FEATURE_ORDER"

text \<open>
  The encoder on a dictionary, with the two scaling tables as arguments, and
  \<^verbatim>\<open>preprocess_input\<close> itself on the tables of the source.
\<close>

definition preprocess_with ::
  "(string \<times> real \<times> real) list \<Rightarrow> (string \<times> real \<times> real) list \<Rightarrow>
   (string \<Rightarrow> real option) \<Rightarrow> raw \<Rightarrow> error + real list" where
  "preprocess_with robust standard P d =
     (case for_each (encode_categorical d) CATEGORICAL_MAPPINGS Map.empty of
        Inl e \<Rightarrow> Inl e
      | Inr p1 \<Rightarrow>
     (case for_each (process_numerical P d) numerical_features
             (p1(''location_mismatch'' \<mapsto> of_int (location_mismatch d))) of
        Inl e \<Rightarrow> Inl e
      | Inr p2 \<Rightarrow>
     (case for_each scale robust p2 of
        Inl e \<Rightarrow> Inl e
      | Inr p3 \<Rightarrow>
     (case for_each scale standard p3 of
        Inl e \<Rightarrow> Inl e
      | Inr p4 \<Rightarrow> Inr (feature_array p4)))))"

fun preprocess_input :: "(string \<Rightarrow> real option) \<Rightarrow> json \<Rightarrow> error + real list" where
  "preprocess_input P (JObj d) = preprocess_with ROBUST_SCALE_PARAMS STANDARD_SCALE_PARAMS P d"
| "preprocess_input P v = Inl (NotADict v)"

subsection \<open>\<^verbatim>\<open>predict\<close> and \<^verbatim>\<open>get_recommendation\<close>\<close>

text \<open>
  The loaded artifact: \<^verbatim>\<open>model_package['model']\<close> with its operation
  \<^verbatim>\<open>float(model.predict_proba(features)[0][1])\<close> (\<open>Inl\<close> the text of the exception it
  raises), and the two optional thresholds. The global \<^verbatim>\<open>model_package\<close> is \<^verbatim>\<open>None\<close> when
  \<^verbatim>\<open>load_model\<close> found no file; it is assigned once and \<^verbatim>\<open>predict\<close> only reads it.
\<close>

record model_package =
  model :: "real list \<Rightarrow> string + real"
  best_threshold :: "real option"
  default_threshold :: "real option"

text \<open>What evaluating \<^verbatim>\<open>request.json\<close> does: it raises (a body that is not JSON) or yields a value.\<close>

datatype request_json = Raises string | Value json

text \<open>An exception caught by the handler, and the \<^verbatim>\<open>'error'\<close> entry of a failure response.\<close>

datatype exn = HTTPError string | EncodeError error | ModelError string

datatype message = Text string | Str exn

record recommendation =
  action :: string
  details :: string
  icon :: "nat list"   \<comment> \<open>the code points of the glyph\<close>

record prediction =
  fraud_probability :: real
  is_fraud_prediction :: bool
  risk_level :: string
  risk_color :: string
  thresholds_best :: real
  thresholds_default :: real
  recommendation :: recommendation

text \<open>
  The two shapes of the response: \<^verbatim>\<open>{'success': False, 'error': ...}\<close> and
  \<^verbatim>\<open>{'success': True, ...}\<close>.
\<close>

datatype body = Failure message | Success prediction

text \<open>\<^verbatim>\<open>round(x, 2)\<close>: to the nearest hundredth, a tie to the even one.\<close>

definition round2 :: "real \<Rightarrow> real" where
  "round2 x =
     (let y = x * 100; n = \<lfloor>y\<rfloor>; r = y - of_int n
      in of_int (if r < 1 / 2 then n else if 1 / 2 < r then n + 1
                 else if even n then n else n + 1) / 100)"

text \<open>The \<^verbatim>\<open>if\<close>/\<^verbatim>\<open>elif\<close> chain of \<^verbatim>\<open>predict\<close>: the risk level and its colour.\<close>

definition risk_tier :: "real \<Rightarrow> string \<times> string" where
  "risk_tier prob =
     (if prob \<ge> 0.7 then (''CRITICAL'', ''#dc2626'')
      else if prob \<ge> 0.5 then (''HIGH'', ''#ea580c'')
      else if prob \<ge> 0.3 then (''MEDIUM'', ''#f59e0b'')
      else if prob \<ge> 0.1 then (''LOW'', ''#84cc16'')
      else (''MINIMAL'', ''#22c55e''))"

definition recommendations :: "(string \<times> recommendation) list" where
  "recommendations =
    [(''CRITICAL'', \<lparr>action = ''BLOCK TRANSACTION'',
        details = ''This transaction shows extremely high fraud indicators. Immediate blocking is recommended. Flag for manual review and contact customer for verification.'',
        icon = [0x1F6AB]\<rparr>),
     (''HIGH'', \<lparr>action = ''HOLD FOR REVIEW'',
        details = ''Transaction flagged with high fraud probability. Place on hold and require additional verification before processing.'',
        icon = [0x26A0, 0xFE0F]\<rparr>),
     (''MEDIUM'', \<lparr>action = ''ENHANCED MONITORING'',
        details = ''Transaction shows moderate risk signals. Proceed with enhanced monitoring and log for pattern analysis.'',
        icon = [0x1F441, 0xFE0F]\<rparr>),
     (''LOW'', \<lparr>action = ''PROCEED WITH CAUTION'',
        details = ''Low fraud indicators detected. Transaction can proceed but include in routine monitoring reports.'',
        icon = [0x2705]\<rparr>),
     (''MINIMAL'', \<lparr>action = ''APPROVE'',
        details = ''Transaction appears legitimate with minimal risk indicators. Safe to process normally.'',
        icon = [0x2728]\<rparr>)]"

definition get_recommendation :: "string \<Rightarrow> real \<Rightarrow> recommendation" where
  "get_recommendation level probability =
     (case map_of recommendations level of
        Some r \<Rightarrow> r
      | None \<Rightarrow> the (map_of recommendations ''MEDIUM''))"

text \<open>\<^verbatim>\<open>model_package.get(name, 0.5)\<close>.\<close>

definition threshold :: "real option \<Rightarrow> real" where
  "threshold t = (case t of None \<Rightarrow> 0.5 | Some x \<Rightarrow> x)"

text \<open>
  The handler returns the status and the JSON body. Everything after \<^verbatim>\<open>try:\<close> that raises
  ends in the \<^verbatim>\<open>except Exception\<close> branch: status 400 and \<^verbatim>\<open>str(e)\<close>.
\<close>

definition predict ::
  "(string \<Rightarrow> real option) \<Rightarrow> model_package option \<Rightarrow> request_json \<Rightarrow> nat \<times> body" where
  "predict P package req =
     (case req of
        Raises e \<Rightarrow> (400, Failure (Str (HTTPError e)))
      | Value data \<Rightarrow>
          (case data of
             JNull \<Rightarrow> (400, Failure (Text ''No JSON data received''))
           | _ \<Rightarrow>
          (case package of
             None \<Rightarrow>
               (500, Failure (Text ''Model not loaded. Please check if the model file exists.''))
           | Some pkg \<Rightarrow>
          (case preprocess_input P data of
             Inl e \<Rightarrow> (400, Failure (Str (EncodeError e)))
           | Inr features \<Rightarrow>
          (case model pkg features of
             Inl e \<Rightarrow> (400, Failure (Str (ModelError e)))
           | Inr prob \<Rightarrow>
               (200, Success
                 \<lparr>fraud_probability = round2 (prob * 100),
                  is_fraud_prediction = (prob \<ge> threshold (best_threshold pkg)),
                  risk_level = fst (risk_tier prob),
                  risk_color = snd (risk_tier prob),
                  thresholds_best = round2 (threshold (best_threshold pkg) * 100),
                  thresholds_default = round2 (threshold (default_threshold pkg) * 100),
                  recommendation =
                    get_recommendation (fst (risk_tier prob)) prob\<rparr>))))))"

subsection \<open>Sample arguments\<close>

text \<open>
  An instance of the parameter for \<^verbatim>\<open>float()\<close> on strings, used where a theorem is
  evaluated: the strings \<^verbatim>\<open>[+-]digits[.digits]\<close> (at least one digit) denote their decimal
  value, every other string is refused. Python accepts more (exponents, blanks around,
  \<^verbatim>\<open>inf\<close>, \<^verbatim>\<open>nan\<close>), and refuses a string without any digit that is none of those words.
\<close>

definition digit_value :: "char \<Rightarrow> nat option" where
  "digit_value c =
     (let n = (of_char c :: nat) in if 48 \<le> n \<and> n \<le> 57 then Some (n - 48) else None)"

fun digits_value :: "string \<Rightarrow> nat \<Rightarrow> nat option" where
  "digits_value [] acc = Some acc"
| "digits_value (c # cs) acc =
     (case digit_value c of None \<Rightarrow> None | Some k \<Rightarrow> digits_value cs (10 * acc + k))"

definition unsigned_decimal :: "string \<Rightarrow> real option" where
  "unsigned_decimal s =
     (let ip = takeWhile (\<lambda>c. c \<noteq> CHR ''.'') s;
          fp = drop 1 (dropWhile (\<lambda>c. c \<noteq> CHR ''.'') s)
      in if ip = [] \<and> fp = [] then None
         else case (digits_value ip 0, digits_value fp 0) of
                (Some a, Some b) \<Rightarrow> Some (of_nat a + of_nat b / 10 ^ length fp)
              | _ \<Rightarrow> None)"

definition decimal_float :: "string \<Rightarrow> real option" where
  "decimal_float s =
     (case s of
        CHR ''-'' # r \<Rightarrow> map_option uminus (unsigned_decimal r)
      | CHR ''+'' # r \<Rightarrow> unsigned_decimal r
      | _ \<Rightarrow> unsigned_decimal s)"

text \<open>A loaded artifact whose classifier answers 0.35 times the first feature.\<close>

fun sample_model :: "real list \<Rightarrow> string + real" where
  "sample_model [] = Inl ''no features''"
| "sample_model (x # xs) = Inr (0.35 * x)"

definition sample_package :: model_package where
  "sample_package =
     \<lparr>model = sample_model, best_threshold = Some 0.4, default_threshold = None\<rparr>"

subsection \<open>What the loops compute\<close>

text \<open>
  The conditions under which no step of a loop raises, and the dictionary \<^verbatim>\<open>processed\<close>
  after each loop, written without the loop: they are proved below to describe
  \<^verbatim>\<open>preprocess_input\<close> exactly.
\<close>

definition raises :: "error + 'a \<Rightarrow> bool" where
  "raises r = (case r of Inl _ \<Rightarrow> True | Inr _ \<Rightarrow> False)"

definition categorical_ok :: "raw \<Rightarrow> (string \<times> (key \<times> int) list) list \<Rightarrow> bool" where
  "categorical_ok d tbl =
     list_all (\<lambda>fm. case d (fst fm) of None \<Rightarrow> True
                    | Some v \<Rightarrow> fst fm = ''new_device'' \<or> hashable v) tbl"

definition numerical_ok :: "(string \<Rightarrow> real option) \<Rightarrow> raw \<Rightarrow> string list \<Rightarrow> bool" where
  "numerical_ok P d fs = list_all (\<lambda>f. \<not> raises (py_float P (data_get d f (JInt 0)))) fs"

definition categorical_codes :: "raw \<Rightarrow> (string \<times> (key \<times> int) list) list \<Rightarrow> processed \<Rightarrow> processed" where
  "categorical_codes d tbl p =
     (\<lambda>g. case map_of tbl g of
            None \<Rightarrow> p g
          | Some m \<Rightarrow>
              (case d g of
                 None \<Rightarrow> p g
               | Some v \<Rightarrow> (case encode_value g m v of Inl _ \<Rightarrow> p g | Inr c \<Rightarrow> Some (of_int c))))"

definition numerical_values :: "(string \<Rightarrow> real option) \<Rightarrow> raw \<Rightarrow> string list \<Rightarrow> processed \<Rightarrow> processed" where
  "numerical_values P d fs p =
     (\<lambda>g. if g \<in> set fs
          then (case py_float P (data_get d g (JInt 0)) of Inl _ \<Rightarrow> p g | Inr x \<Rightarrow> Some x)
          else p g)"

definition scaled :: "(string \<times> real \<times> real) list \<Rightarrow> processed \<Rightarrow> processed" where
  "scaled tbl p =
     (\<lambda>g. case map_of tbl g of
            None \<Rightarrow> p g
          | Some cs \<Rightarrow>
              if snd cs \<noteq> 0 then map_option (\<lambda>x. (x - fst cs) / snd cs) (p g) else Some 0)"

definition valid_request :: "(string \<Rightarrow> real option) \<Rightarrow> raw \<Rightarrow> bool" where
  "valid_request P d \<longleftrightarrow>
     categorical_ok d CATEGORICAL_MAPPINGS \<and> numerical_ok P d numerical_features"

definition encoded ::
  "(string \<times> real \<times> real) list \<Rightarrow> (string \<times> real \<times> real) list \<Rightarrow>
   (string \<Rightarrow> real option) \<Rightarrow> raw \<Rightarrow> processed" where
  "encoded robust standard P d =
     scaled standard (scaled robust (numerical_values P d numerical_features
       ((categorical_codes d CATEGORICAL_MAPPINGS Map.empty)
          (''location_mismatch'' \<mapsto> of_int (location_mismatch d)))))"

text \<open>
  A value of a categorical field that is none of the keys of its table: for
  \<^verbatim>\<open>new_device\<close>, whose value is first compared with \<^verbatim>\<open>'true'\<close>, not that string either; for
  the other fields, a value that can be looked up at all.
\<close>

definition unrecognized_token :: "string \<Rightarrow> (key \<times> int) list \<Rightarrow> json \<Rightarrow> bool" where
  "unrecognized_token f m t \<longleftrightarrow>
     list_all (\<lambda>kc. \<not> py_eq t (fst kc)) m \<and>
     (if f = ''new_device'' then \<not> py_eq t (KStr ''true'') else hashable t)"

section \<open>The loops of \<^verbatim>\<open>preprocess_input\<close>\<close>

declare preprocess_input.simps [simp del]

lemma float_overflows_small [simp]: "\<bar>i\<bar> \<le> 1000000 \<Longrightarrow> \<not> float_overflows i"
proof -
  have "(1000000::int) < 2 ^ 1024 - 2 ^ 970"
    by simp
  then show "\<bar>i\<bar> \<le> 1000000 \<Longrightarrow> \<not> float_overflows i"
    by (simp add: float_overflows_def)
qed

text \<open>The definitions that evaluate the encoder on a given request.\<close>

lemmas table_defs = CATEGORICAL_MAPPINGS_def ROBUST_SCALE_PARAMS_def STANDARD_SCALE_PARAMS_def
  numerical_features_def FEATURE_ORDER_def

lemmas step_defs = preprocess_input.simps preprocess_with_def encode_categorical_def encode_value_def mapping_get_def
  process_numerical_def scale_def feature_array_def data_get_def location_mismatch_def

lemmas parse_defs = decimal_float_def unsigned_decimal_def digit_value_def

lemma raises_simps [simp]: "raises (Inl e)" "\<not> raises (Inr x)"
  by (simp_all add: raises_def)

lemma raises_iff: "raises r \<longleftrightarrow> (\<exists>e. r = Inl e)"
  by (cases r) simp_all

lemma not_raises_iff: "\<not> raises r \<longleftrightarrow> (\<exists>x. r = Inr x)"
  by (cases r) simp_all

lemma for_each_append:
  "for_each body (xs @ ys) s =
     (case for_each body xs s of Inl e \<Rightarrow> Inl e | Inr s' \<Rightarrow> for_each body ys s')"
  by (induction xs arbitrary: s) (auto split: sum.splits)

lemma for_each_raises:
  "x \<in> set xs \<Longrightarrow> (\<And>s. raises (body x s)) \<Longrightarrow> raises (for_each body xs s)"
proof (induction xs arbitrary: s)
  case Nil
  then show ?case by simp
next
  case (Cons y ys)
  show ?case
  proof (cases "body y s")
    case (Inl e)
    then show ?thesis by simp
  next
    case (Inr s')
    with Cons.prems(2) [of s] have "y \<noteq> x" by auto
    with Cons.prems(1) have "x \<in> set ys" by simp
    from Cons.IH [OF this Cons.prems(2)] Inr show ?thesis by simp
  qed
qed

lemma encode_value_raises: "raises (encode_value f m v) \<longleftrightarrow> f \<noteq> ''new_device'' \<and> \<not> hashable v"
  by (auto simp: encode_value_def mapping_get_def split: option.splits)

lemma categorical_loop:
  "distinct (map fst tbl) \<Longrightarrow> categorical_ok d tbl \<Longrightarrow>
   for_each (encode_categorical d) tbl p = Inr (categorical_codes d tbl p)"
proof (induction tbl arbitrary: p)
  case Nil
  then show ?case by (simp add: categorical_codes_def)
next
  case (Cons fm tbl)
  obtain f m where fm: "fm = (f, m)" by (cases fm)
  from Cons.prems have d: "distinct (map fst tbl)" and nf: "map_of tbl f = None"
    and ok: "categorical_ok d tbl"
    by (auto simp: fm categorical_ok_def map_of_eq_None_iff)
  show ?case
  proof (cases "d f")
    case None
    have "for_each (encode_categorical d) (fm # tbl) p = for_each (encode_categorical d) tbl p"
      by (simp add: encode_categorical_def fm None)
    also have "\<dots> = Inr (categorical_codes d tbl p)"
      by (rule Cons.IH [OF d ok])
    also have "categorical_codes d tbl p = categorical_codes d (fm # tbl) p"
      by (auto simp: categorical_codes_def fm None nf fun_eq_iff split: option.splits)
    finally show ?thesis .
  next
    case (Some v)
    with Cons.prems(2) have "\<not> raises (encode_value f m v)"
      by (simp add: categorical_ok_def fm encode_value_raises)
    then obtain c where c: "encode_value f m v = Inr c"
      by (auto simp: not_raises_iff)
    have "for_each (encode_categorical d) (fm # tbl) p =
          for_each (encode_categorical d) tbl (p(f \<mapsto> of_int c))"
      by (simp add: encode_categorical_def fm Some c)
    also have "\<dots> = Inr (categorical_codes d tbl (p(f \<mapsto> of_int c)))"
      by (rule Cons.IH [OF d ok])
    also have "categorical_codes d tbl (p(f \<mapsto> of_int c)) = categorical_codes d (fm # tbl) p"
      by (auto simp: categorical_codes_def fm Some c nf fun_eq_iff split: option.splits sum.splits)
    finally show ?thesis .
  qed
qed

lemma categorical_loop_raises:
  "\<not> categorical_ok d tbl \<Longrightarrow> raises (for_each (encode_categorical d) tbl p)"
proof -
  assume "\<not> categorical_ok d tbl"
  then obtain fm v where fm: "fm \<in> set tbl" and v: "d (fst fm) = Some v"
    and bad: "fst fm \<noteq> ''new_device''" "\<not> hashable v"
    by (auto simp: categorical_ok_def list_all_iff split: option.splits)
  have "raises (encode_categorical d fm s)" for s
    using v bad encode_value_raises [of "fst fm" "snd fm" v]
    by (auto simp: encode_categorical_def raises_iff split: sum.splits)
  with fm show ?thesis by (rule for_each_raises)
qed

lemma numerical_loop:
  "numerical_ok P d fs \<Longrightarrow>
   for_each (process_numerical P d) fs p = Inr (numerical_values P d fs p)"
proof (induction fs arbitrary: p)
  case Nil
  then show ?case by (simp add: numerical_values_def)
next
  case (Cons f fs)
  from Cons.prems obtain x where x: "py_float P (data_get d f (JInt 0)) = Inr x"
    and ok: "numerical_ok P d fs"
    by (auto simp: numerical_ok_def not_raises_iff)
  have "for_each (process_numerical P d) (f # fs) p =
        for_each (process_numerical P d) fs (p(f \<mapsto> x))"
    by (simp add: process_numerical_def x)
  also have "\<dots> = Inr (numerical_values P d fs (p(f \<mapsto> x)))"
    by (rule Cons.IH [OF ok])
  also have "numerical_values P d fs (p(f \<mapsto> x)) = numerical_values P d (f # fs) p"
    by (auto simp: numerical_values_def x fun_eq_iff split: sum.splits)
  finally show ?case .
qed

lemma numerical_loop_raises:
  "\<not> numerical_ok P d fs \<Longrightarrow> raises (for_each (process_numerical P d) fs p)"
proof -
  assume "\<not> numerical_ok P d fs"
  then obtain f where f: "f \<in> set fs" and bad: "raises (py_float P (data_get d f (JInt 0)))"
    by (auto simp: numerical_ok_def list_all_iff)
  have "raises (process_numerical P d f s)" for s
    using bad by (auto simp: process_numerical_def raises_iff)
  with f show ?thesis by (rule for_each_raises)
qed

lemma numerical_loop_first_error:
  assumes "f \<in> set fs" and "numerical_ok P d (takeWhile (\<lambda>g. g \<noteq> f) fs)"
    and "py_float P (data_get d f (JInt 0)) = Inl e"
  shows "for_each (process_numerical P d) fs p = Inl e"
proof -
  from split_list_first [OF assms(1)] obtain ys zs
    where fs: "fs = ys @ f # zs" and ys: "f \<notin> set ys"
    by blast
  from ys have "takeWhile (\<lambda>g. g \<noteq> f) (ys @ f # zs) = ys @ takeWhile (\<lambda>g. g \<noteq> f) (f # zs)"
    by (intro takeWhile_append2) auto
  then have "takeWhile (\<lambda>g. g \<noteq> f) fs = ys"
    by (simp add: fs)
  with assms(2) have "numerical_ok P d ys" by simp
  then show ?thesis
    by (simp add: fs for_each_append numerical_loop process_numerical_def assms(3))
qed

lemma scale_loop:
  "distinct (map fst tbl) \<Longrightarrow> list_all (\<lambda>fp. snd (snd fp) = 0 \<or> p (fst fp) \<noteq> None) tbl \<Longrightarrow>
   for_each scale tbl p = Inr (scaled tbl p)"
proof (induction tbl arbitrary: p)
  case Nil
  then show ?case by (simp add: scaled_def)
next
  case (Cons fp tbl)
  obtain f c s where fp: "fp = (f, c, s)" by (cases fp)
  from Cons.prems have d: "distinct (map fst tbl)" and nf: "map_of tbl f = None"
    by (auto simp: fp map_of_eq_None_iff)
  from Cons.prems(2) obtain p' where p': "scale fp p = Inr p'"
    and p'_def: "p' = p(f \<mapsto> (if s \<noteq> 0 then (the (p f) - c) / s else 0))"
    by (auto simp: scale_def fp)
  from Cons.prems(2) have ok: "list_all (\<lambda>fp. snd (snd fp) = 0 \<or> p' (fst fp) \<noteq> None) tbl"
    by (auto simp: p'_def list_all_iff)
  have "for_each scale (fp # tbl) p = for_each scale tbl p'"
    by (simp add: p')
  also have "\<dots> = Inr (scaled tbl p')"
    by (rule Cons.IH [OF d ok])
  also have "scaled tbl p' = scaled (fp # tbl) p"
    using Cons.prems(2) by (auto simp: scaled_def fp p'_def nf fun_eq_iff split: option.splits)
  finally show ?case .
qed

lemma scale_loop_Inr:
  "distinct (map fst tbl) \<Longrightarrow> for_each scale tbl p = Inr p' \<Longrightarrow> p' = scaled tbl p"
proof (induction tbl arbitrary: p)
  case Nil
  then show ?case by (simp add: scaled_def)
next
  case (Cons fp tbl)
  obtain f c s where fp: "fp = (f, c, s)" by (cases fp)
  from Cons.prems(1) have d: "distinct (map fst tbl)" and nf: "map_of tbl f = None"
    by (auto simp: fp map_of_eq_None_iff)
  from Cons.prems(2) obtain q where q: "scale fp p = Inr q" and rest: "for_each scale tbl q = Inr p'"
    by (auto split: sum.splits)
  from q have "scaled tbl q = scaled (fp # tbl) p"
    by (auto simp: scale_def scaled_def fp nf fun_eq_iff split: option.splits if_splits)
  with Cons.IH [OF d rest] show ?case by simp
qed

lemma distinct_tables:
  "distinct (map fst CATEGORICAL_MAPPINGS)"
  "distinct (map fst ROBUST_SCALE_PARAMS)"
  "distinct (map fst STANDARD_SCALE_PARAMS)"
  by (simp_all add: CATEGORICAL_MAPPINGS_def ROBUST_SCALE_PARAMS_def STANDARD_SCALE_PARAMS_def)

lemma scaled_features:
  "fp \<in> set ROBUST_SCALE_PARAMS \<Longrightarrow> fst fp \<in> set numerical_features"
  "fp \<in> set STANDARD_SCALE_PARAMS \<Longrightarrow> fst fp \<in> set numerical_features"
  by (auto simp: ROBUST_SCALE_PARAMS_def STANDARD_SCALE_PARAMS_def numerical_features_def)

section \<open>The encoder without its loops\<close>

lemma preprocess_with_Inr:
  assumes "preprocess_with robust standard P d = Inr v"
    and "distinct (map fst robust)" and "distinct (map fst standard)"
  shows "valid_request P d \<and> v = feature_array (encoded robust standard P d)"
proof -
  from assms(1) obtain p1 p2 p3 p4
    where 1: "for_each (encode_categorical d) CATEGORICAL_MAPPINGS Map.empty = Inr p1"
      and 2: "for_each (process_numerical P d) numerical_features
                (p1(''location_mismatch'' \<mapsto> of_int (location_mismatch d))) = Inr p2"
      and 3: "for_each scale robust p2 = Inr p3"
      and 4: "for_each scale standard p3 = Inr p4"
      and v: "v = feature_array p4"
    by (auto simp: preprocess_with_def split: sum.splits)
  have c: "categorical_ok d CATEGORICAL_MAPPINGS"
  proof (rule ccontr)
    assume "\<not> categorical_ok d CATEGORICAL_MAPPINGS"
    from categorical_loop_raises [OF this, of Map.empty] 1 show False by simp
  qed
  have n: "numerical_ok P d numerical_features"
  proof (rule ccontr)
    assume "\<not> numerical_ok P d numerical_features"
    from numerical_loop_raises
      [OF this, of "p1(''location_mismatch'' \<mapsto> of_int (location_mismatch d))"] 2
    show False by simp
  qed
  from 1 categorical_loop [OF distinct_tables(1) c]
  have p1: "p1 = categorical_codes d CATEGORICAL_MAPPINGS Map.empty" by simp
  from 2 numerical_loop [OF n] have p2: "p2 = numerical_values P d numerical_features
      (p1(''location_mismatch'' \<mapsto> of_int (location_mismatch d)))" by simp
  from scale_loop_Inr [OF assms(2) 3] have p3: "p3 = scaled robust p2" .
  from scale_loop_Inr [OF assms(3) 4] have p4: "p4 = scaled standard p3" .
  show ?thesis
    by (simp add: valid_request_def c n v p4 p3 p2 p1 encoded_def)
qed

lemma numerical_ok_value:
  "numerical_ok P d fs \<Longrightarrow> f \<in> set fs \<Longrightarrow> \<exists>x. py_float P (data_get d f (JInt 0)) = Inr x"
  by (auto simp: numerical_ok_def list_all_iff not_raises_iff)

lemma preprocess_input_valid:
  assumes "valid_request P d"
  shows "preprocess_input P (JObj d) =
           Inr (feature_array (encoded ROBUST_SCALE_PARAMS STANDARD_SCALE_PARAMS P d))"
proof -
  from assms have c: "categorical_ok d CATEGORICAL_MAPPINGS"
    and n: "numerical_ok P d numerical_features"
    by (simp_all add: valid_request_def)
  let ?p1 = "categorical_codes d CATEGORICAL_MAPPINGS Map.empty"
  let ?p2 = "numerical_values P d numerical_features
               (?p1(''location_mismatch'' \<mapsto> of_int (location_mismatch d)))"
  have dom2: "f \<in> set numerical_features \<Longrightarrow> ?p2 f \<noteq> None" for f
    using numerical_ok_value [OF n, of f] by (auto simp: numerical_values_def)
  have 3: "for_each scale ROBUST_SCALE_PARAMS ?p2 = Inr (scaled ROBUST_SCALE_PARAMS ?p2)"
    by (rule scale_loop [OF distinct_tables(2)]) (use scaled_features dom2 in \<open>auto simp: list_all_iff\<close>)
  have dom3: "f \<in> set numerical_features \<Longrightarrow> scaled ROBUST_SCALE_PARAMS ?p2 f \<noteq> None" for f
    using dom2 [of f] by (auto simp: scaled_def split: option.splits)
  have 4: "for_each scale STANDARD_SCALE_PARAMS (scaled ROBUST_SCALE_PARAMS ?p2) =
             Inr (scaled STANDARD_SCALE_PARAMS (scaled ROBUST_SCALE_PARAMS ?p2))"
    by (rule scale_loop [OF distinct_tables(3)]) (use scaled_features dom3 in \<open>auto simp: list_all_iff\<close>)
  show ?thesis
    by (simp add: preprocess_input.simps preprocess_with_def
        categorical_loop [OF distinct_tables(1) c] numerical_loop [OF n] 3 4 encoded_def)
qed

lemma preprocess_input_raises:
  assumes "\<not> valid_request P d"
  shows "raises (preprocess_input P (JObj d))"
  using assms preprocess_with_Inr [OF _ distinct_tables(2,3), of P d]
  by (cases "preprocess_input P (JObj d)") (auto simp: preprocess_input.simps)

lemma preprocess_input_Inr:
  assumes "preprocess_input P (JObj d) = Inr v"
  shows "valid_request P d"
    and "v = feature_array (encoded ROBUST_SCALE_PARAMS STANDARD_SCALE_PARAMS P d)"
  using preprocess_with_Inr [OF _ distinct_tables(2,3), of P d v] assms
  by (simp_all add: preprocess_input.simps)

lemma preprocess_input_first_error:
  assumes "categorical_ok d CATEGORICAL_MAPPINGS" and "f \<in> set numerical_features"
    and "numerical_ok P d (takeWhile (\<lambda>g. g \<noteq> f) numerical_features)"
    and "py_float P (data_get d f (JInt 0)) = Inl e"
  shows "preprocess_input P (JObj d) = Inl e"
  by (simp add: preprocess_input.simps preprocess_with_def
      categorical_loop [OF distinct_tables(1) assms(1)]
      numerical_loop_first_error [OF assms(2,3,4)])

lemma valid_request_float:
  "valid_request P d \<Longrightarrow> f \<in> set numerical_features \<Longrightarrow>
   \<exists>x. py_float P (data_get d f (JInt 0)) = Inr x"
  using numerical_ok_value [of P d numerical_features f] by (simp add: valid_request_def)

lemma valid_request_remove:
  assumes "valid_request P d"
  shows "valid_request P (d(f := None))"
proof -
  have "py_float P (data_get (d(f := None)) g (JInt 0)) = Inr 0 \<or>
        data_get (d(f := None)) g (JInt 0) = data_get d g (JInt 0)" for g
    by (simp add: data_get_def)
  then have "\<not> raises (py_float P (data_get d g (JInt 0))) \<Longrightarrow>
             \<not> raises (py_float P (data_get (d(f := None)) g (JInt 0)))" for g
    by (metis raises_simps(2))
  with assms show ?thesis
    by (auto simp: valid_request_def categorical_ok_def numerical_ok_def list_all_iff)
qed

section \<open>The value of each feature\<close>

lemma length_FEATURE_ORDER: "length FEATURE_ORDER = 25"
  by (simp add: FEATURE_ORDER_def)

lemma feature_array_nth:
  "i < 25 \<Longrightarrow> feature_array p ! i = (case p (FEATURE_ORDER ! i) of None \<Rightarrow> 0 | Some x \<Rightarrow> x)"
  by (simp add: feature_array_def length_FEATURE_ORDER)

lemma encoded_unscaled:
  assumes "py_float P (data_get d f (JInt 0)) = Inr x" and "f \<in> set numerical_features"
    and "map_of robust f = None" and "map_of standard f = None"
  shows "encoded robust standard P d f = Some x"
  using assms by (simp add: encoded_def scaled_def numerical_values_def)

lemma encoded_robust:
  assumes "py_float P (data_get d f (JInt 0)) = Inr x" and "f \<in> set numerical_features"
    and "map_of robust f = Some (c, s)" and "map_of standard f = None"
  shows "encoded robust standard P d f = Some (if s \<noteq> 0 then (x - c) / s else 0)"
  using assms by (simp add: encoded_def scaled_def numerical_values_def)

lemma encoded_standard:
  assumes "py_float P (data_get d f (JInt 0)) = Inr x" and "f \<in> set numerical_features"
    and "map_of robust f = None" and "map_of standard f = Some (c, s)"
  shows "encoded robust standard P d f = Some (if s \<noteq> 0 then (x - c) / s else 0)"
  using assms by (simp add: encoded_def scaled_def numerical_values_def)

lemma encoded_categorical:
  assumes "f \<notin> set numerical_features" and "f \<noteq> ''location_mismatch''"
    and "map_of robust f = None" and "map_of standard f = None"
  shows "encoded robust standard P d f = categorical_codes d CATEGORICAL_MAPPINGS Map.empty f"
  using assms by (simp add: encoded_def scaled_def numerical_values_def)

lemma encoded_location_mismatch:
  "encoded ROBUST_SCALE_PARAMS STANDARD_SCALE_PARAMS P d ''location_mismatch'' =
     Some (of_int (location_mismatch d))"
  by (simp add: encoded_def scaled_def numerical_values_def table_defs)

lemma location_mismatch_cases:
  "location_mismatch d =
     (if d ''location_mismatch'' \<in>
           {Some (JStr ''true''), Some (JBool True), Some (JInt 1), Some (JFloat 1),
            Some (JStr ''1'')}
      then 1 else 0)"
proof (cases "d ''location_mismatch''")
  case None
  then show ?thesis by (simp add: location_mismatch_def data_get_def)
next
  case (Some v)
  then show ?thesis
    by (cases v) (auto simp: location_mismatch_def data_get_def)
qed

lemma new_device_code:
  "categorical_codes d CATEGORICAL_MAPPINGS Map.empty ''new_device'' =
     (case d ''new_device'' of
        None \<Rightarrow> None
      | Some t \<Rightarrow> Some (if t \<in> {JStr ''true'', JBool True, JInt 1, JFloat 1} then 1 else 0))"
proof (cases "d ''new_device''")
  case None
  then show ?thesis by (simp add: categorical_codes_def CATEGORICAL_MAPPINGS_def)
next
  case (Some t)
  then show ?thesis
    by (cases t)
       (auto simp: categorical_codes_def CATEGORICAL_MAPPINGS_def encode_value_def mapping_get_def)
qed

lemma robust_entry:
  assumes "fp \<in> set ROBUST_SCALE_PARAMS"
  shows "fst fp \<in> set numerical_features" and "map_of STANDARD_SCALE_PARAMS (fst fp) = None"
    and "snd (snd fp) \<noteq> 0"
  using assms by (auto simp: table_defs)

lemma standard_entry:
  assumes "fp \<in> set STANDARD_SCALE_PARAMS"
  shows "fst fp \<in> set numerical_features" and "map_of ROBUST_SCALE_PARAMS (fst fp) = None"
    and "snd (snd fp) \<noteq> 0"
  using assms by (auto simp: table_defs)

lemma categorical_entry:
  assumes "(f, m) \<in> set CATEGORICAL_MAPPINGS"
  shows "f \<notin> set numerical_features" and "f \<noteq> ''location_mismatch''"
    and "map_of ROBUST_SCALE_PARAMS f = None" and "map_of STANDARD_SCALE_PARAMS f = None"
  using assms by (auto simp: table_defs)

lemma new_device_table:
  "(''new_device'', m) \<in> set CATEGORICAL_MAPPINGS \<Longrightarrow> m = [(KBool False, 0), (KBool True, 1)]"
  by (auto simp: CATEGORICAL_MAPPINGS_def)

lemma preprocess_with_robust:
  assumes v: "preprocess_with robust STANDARD_SCALE_PARAMS P d = Inr v"
    and dist: "distinct (map fst robust)"
    and i: "i < 25"
    and entry: "(FEATURE_ORDER ! i, median, iqr) \<in> set robust"
    and num: "FEATURE_ORDER ! i \<in> set numerical_features"
    and std: "map_of STANDARD_SCALE_PARAMS (FEATURE_ORDER ! i) = None"
  shows "\<exists>x. py_float P (data_get d (FEATURE_ORDER ! i) (JInt 0)) = Inr x \<and>
             v ! i = (if iqr \<noteq> 0 then (x - median) / iqr else 0)"
proof -
  from preprocess_with_Inr [OF v dist distinct_tables(3)]
  have valid: "valid_request P d"
    and v_eq: "v = feature_array (encoded robust STANDARD_SCALE_PARAMS P d)"
    by simp_all
  from valid_request_float [OF valid num] obtain x
    where x: "py_float P (data_get d (FEATURE_ORDER ! i) (JInt 0)) = Inr x" ..
  from dist entry have "map_of robust (FEATURE_ORDER ! i) = Some (median, iqr)"
    by (rule map_of_is_SomeI)
  from encoded_robust [OF x num this std]
  have "v ! i = (if iqr \<noteq> 0 then (x - median) / iqr else 0)"
    by (simp add: v_eq feature_array_nth [OF i])
  with x show ?thesis by blast
qed

lemma preprocess_input_robust:
  assumes v: "preprocess_input P (JObj d) = Inr v" and i: "i < 25"
    and entry: "(FEATURE_ORDER ! i, median, iqr) \<in> set ROBUST_SCALE_PARAMS"
  shows "\<exists>x. py_float P (data_get d (FEATURE_ORDER ! i) (JInt 0)) = Inr x \<and>
             v ! i = (x - median) / iqr"
proof -
  from v have "preprocess_with ROBUST_SCALE_PARAMS STANDARD_SCALE_PARAMS P d = Inr v"
    by (simp add: preprocess_input.simps)
  from preprocess_with_robust [OF this distinct_tables(2) i entry] robust_entry [OF entry]
  show ?thesis by simp
qed

lemma preprocess_input_standard:
  assumes v: "preprocess_input P (JObj d) = Inr v" and i: "i < 25"
    and entry: "(FEATURE_ORDER ! i, mean, std) \<in> set STANDARD_SCALE_PARAMS"
  shows "\<exists>x. py_float P (data_get d (FEATURE_ORDER ! i) (JInt 0)) = Inr x \<and>
             v ! i = (x - mean) / std"
proof -
  note e = standard_entry [OF entry, simplified]
  from valid_request_float [OF preprocess_input_Inr(1) [OF v] e(1)] obtain x
    where x: "py_float P (data_get d (FEATURE_ORDER ! i) (JInt 0)) = Inr x" ..
  from distinct_tables(3) entry
  have "map_of STANDARD_SCALE_PARAMS (FEATURE_ORDER ! i) = Some (mean, std)"
    by (rule map_of_is_SomeI)
  from encoded_standard [OF x e(1,2) this] e(3)
  have "v ! i = (x - mean) / std"
    by (simp add: preprocess_input_Inr(2) [OF v] feature_array_nth [OF i])
  with x show ?thesis by blast
qed

lemma preprocess_input_unscaled:
  assumes v: "preprocess_input P (JObj d) = Inr v" and i: "i < 25"
    and f: "FEATURE_ORDER ! i \<in>
      {''risk_score_internal'', ''txn_velocity_1h'', ''txn_velocity_24h'', ''corridor_risk''}"
  shows "py_float P (data_get d (FEATURE_ORDER ! i) (JInt 0)) = Inr (v ! i)"
proof -
  from f have num: "FEATURE_ORDER ! i \<in> set numerical_features"
    and r: "map_of ROBUST_SCALE_PARAMS (FEATURE_ORDER ! i) = None"
    and s: "map_of STANDARD_SCALE_PARAMS (FEATURE_ORDER ! i) = None"
    by (auto simp: numerical_features_def ROBUST_SCALE_PARAMS_def STANDARD_SCALE_PARAMS_def)
  from valid_request_float [OF preprocess_input_Inr(1) [OF v] num] obtain x
    where x: "py_float P (data_get d (FEATURE_ORDER ! i) (JInt 0)) = Inr x" ..
  from encoded_unscaled [OF x num r s] have "v ! i = x"
    by (simp add: preprocess_input_Inr(2) [OF v] feature_array_nth [OF i])
  with x show ?thesis by simp
qed

lemma numerical_values_cong:
  "data_get d' g (JInt 0) = data_get d g (JInt 0) \<Longrightarrow> p' g = p g \<Longrightarrow>
   numerical_values P d' fs p' g = numerical_values P d fs p g"
  by (auto simp: numerical_values_def split: sum.splits)

lemma scaled_cong: "p' g = p g \<Longrightarrow> scaled tbl p' g = scaled tbl p g"
  by (auto simp: scaled_def split: option.splits)

lemma encoded_remove_other:
  assumes "g \<noteq> f" and "f \<noteq> ''location_mismatch''"
  shows "encoded robust standard P (d(f := None)) g = encoded robust standard P d g"
proof -
  from assms(1) have cc: "categorical_codes (d(f := None)) CATEGORICAL_MAPPINGS Map.empty g =
      categorical_codes d CATEGORICAL_MAPPINGS Map.empty g"
    by (simp add: categorical_codes_def cong: option.case_cong)
  from assms(2) have lm: "location_mismatch (d(f := None)) = location_mismatch d"
    by (simp add: location_mismatch_def data_get_def)
  from assms(1) have dg: "data_get (d(f := None)) g (JInt 0) = data_get d g (JInt 0)"
    by (simp add: data_get_def)
  show ?thesis
    unfolding encoded_def
    by (intro scaled_cong numerical_values_cong dg) (simp add: cc lm)
qed

section \<open>The encoder on sample requests\<close>

lemma sample_empty:
  "preprocess_input decimal_float (JObj Map.empty) =
     Inr [0, 0, 0, 0, - (2 / 3), - (9 / 14), - (4 / 5), - (1 / 10), 0, 0, 0, - 2, 0,
          - (5 / 3), - (13 / 5), 0, 0, 0, 0, 0, 0, 0, 0, 0, 0]"
  by (simp add: table_defs step_defs)

lemma sample_US:
  "preprocess_input decimal_float (JObj [''home_country'' \<mapsto> JStr ''US'']) =
     Inr [2, 0, 0, 0, - (2 / 3), - (9 / 14), - (4 / 5), - (1 / 10), 0, 0, 0, - 2, 0,
          - (5 / 3), - (13 / 5), 0, 0, 0, 0, 0, 0, 0, 0, 0, 0]"
  by (simp add: table_defs step_defs)

lemma sample_valid: "valid_request decimal_float [''home_country'' \<mapsto> JStr ''US'']"
  by (simp add: valid_request_def categorical_ok_def numerical_ok_def table_defs data_get_def)

lemma sample_ZZ:
  "preprocess_input decimal_float (JObj [''home_country'' \<mapsto> JStr ''ZZ'']) =
     Inr [0, 0, 0, 0, - (2 / 3), - (9 / 14), - (4 / 5), - (1 / 10), 0, 0, 0, - 2, 0,
          - (5 / 3), - (13 / 5), 0, 0, 0, 0, 0, 0, 0, 0, 0, 0]"
  by (simp add: table_defs step_defs)

lemma sample_abc:
  "preprocess_input decimal_float (JObj [''amount_src'' \<mapsto> JStr ''abc'']) =
     Inl (ValueError_float ''abc'')"
  by (simp add: table_defs step_defs parse_defs)

lemma sample_overflow:
  "preprocess_input decimal_float (JObj [''amount_src'' \<mapsto> JInt (10 ^ 309)]) =
     Inl OverflowError_float"
  by (simp add: table_defs step_defs float_overflows_def)

lemma sample_overflow_first:
  "preprocess_input decimal_float
     (JObj [''amount_src'' \<mapsto> JInt (10 ^ 309), ''fee'' \<mapsto> JStr ''abc'']) =
     Inl OverflowError_float"
  by (simp add: table_defs step_defs float_overflows_def)

lemma sample_500:
  "preprocess_input decimal_float (JObj [''amount_src'' \<mapsto> JInt 500]) =
     Inr [0, 0, 0, 0, 1, - (9 / 14), - (4 / 5), - (1 / 10), 0, 0, 0, - 2, 0,
          - (5 / 3), - (13 / 5), 0, 0, 0, 0, 0, 0, 0, 0, 0, 0]"
  by (simp add: table_defs step_defs)

lemma sample_zero_iqr:
  "preprocess_with [(''amount_src'', 200, 0)] STANDARD_SCALE_PARAMS decimal_float
     [''amount_src'' \<mapsto> JInt 500] =
     Inr [0, 0, 0, 0, 0, 0, 0, 0, 0, 0, 0, - 2, 0,
          - (5 / 3), - (13 / 5), 0, 0, 0, 0, 0, 0, 0, 0, 0, 0]"
  by (simp add: table_defs step_defs)

lemma sample_flags:
  "preprocess_input decimal_float
     (JObj [''location_mismatch'' \<mapsto> JStr ''1'', ''new_device'' \<mapsto> JInt 1]) =
     Inr [0, 0, 0, 0, - (2 / 3), - (9 / 14), - (4 / 5), - (1 / 10), 1, 0, 1, - 2, 0,
          - (5 / 3), - (13 / 5), 0, 0, 0, 0, 0, 0, 0, 0, 0, 0]"
  by (simp add: table_defs step_defs)

lemma sample_risk_score:
  "preprocess_input decimal_float (JObj [''risk_score_internal'' \<mapsto> JFloat 0.8]) =
     Inr [0, 0, 0, 0, - (2 / 3), - (9 / 14), - (4 / 5), - (1 / 10), 0, 0, 0, - 2, 0,
          - (5 / 3), - (13 / 5), 0, 0.8, 0, 0, 0, 0, 0, 0, 0, 0]"
  by (simp add: table_defs step_defs)

section \<open>Length and order of the vector\<close>

text \<open>
  C1, as the code has it. A valid request is encoded, and every encoded request yields
  exactly 25 values, one for each name of \<^verbatim>\<open>FEATURE_ORDER\<close> in that order, whichever fields
  the request holds.
\<close>

theorem preprocess_input_length:
  "(valid_request P d \<longrightarrow> (\<exists>v. preprocess_input P (JObj d) = Inr v)) \<and>
   (\<forall>v. preprocess_input P (JObj d) = Inr v \<longrightarrow>
      length v = 25 \<and>
      v = map (\<lambda>f. case encoded ROBUST_SCALE_PARAMS STANDARD_SCALE_PARAMS P d f of
                      None \<Rightarrow> 0 | Some x \<Rightarrow> x) FEATURE_ORDER)"
proof (intro conjI impI allI)
  assume "valid_request P d"
  then show "\<exists>v. preprocess_input P (JObj d) = Inr v"
    by (simp add: preprocess_input_valid)
next
  fix v
  assume "preprocess_input P (JObj d) = Inr v"
  from preprocess_input_Inr(2) [OF this]
  show "length v = 25"
    and "v = map (\<lambda>f. case encoded ROBUST_SCALE_PARAMS STANDARD_SCALE_PARAMS P d f of
                      None \<Rightarrow> 0 | Some x \<Rightarrow> x) FEATURE_ORDER"
    by (simp_all add: feature_array_def length_FEATURE_ORDER)
qed

theorem preprocess_input_length_witness:
  "valid_request decimal_float [''home_country'' \<mapsto> JStr ''US''] \<and>
   preprocess_input decimal_float (JObj [''home_country'' \<mapsto> JStr ''US'']) =
     Inr [2, 0, 0, 0, - (2 / 3), - (9 / 14), - (4 / 5), - (1 / 10), 0, 0, 0, - 2, 0,
          - (5 / 3), - (13 / 5), 0, 0, 0, 0, 0, 0, 0, 0, 0, 0] \<and>
   length [2, 0, 0, 0, - (2 / 3), - (9 / 14), - (4 / 5), - (1 / 10), 0, 0, 0, - 2, 0,
          - (5 / 3), - (13 / 5), 0, 0, 0, 0, 0, 0, 0, 0, 0, 0 :: real] = 25"
proof -
  from preprocess_input_length [of decimal_float "[''home_country'' \<mapsto> JStr ''US'']"]
    sample_US
  have "length [2, 0, 0, 0, - (2 / 3), - (9 / 14), - (4 / 5), - (1 / 10), 0, 0, 0, - 2, 0,
          - (5 / 3), - (13 / 5), 0, 0, 0, 0, 0, 0, 0, 0, 0, 0 :: real] = 25"
    by blast
  with sample_valid sample_US show ?thesis
    by (intro conjI)
qed

text \<open>The empty request is encoded to 25 values, not 24.\<close>

theorem preprocess_input_length_counterexample:
  "map_sum id length (preprocess_input decimal_float (JObj Map.empty)) = Inr 25 \<and>
   map_sum id length (preprocess_input decimal_float (JObj Map.empty)) \<noteq> Inr 24"
  by (simp add: sample_empty)

section \<open>The risk level\<close>

lemma predict_success:
  assumes "data \<noteq> JNull" and "preprocess_input P data = Inr v" and "model pkg v = Inr p"
  shows "\<exists>r. predict P (Some pkg) (Value data) = (200, Success r) \<and>
             risk_level r = fst (risk_tier p)"
  using assms by (cases data) (simp_all add: predict_def)

text \<open>
  C2. When the request is encoded and the classifier answers the probability \<open>p\<close>, the
  response carries the risk level chosen top-down with inclusive lower bounds:
  \<open>p \<ge> 0.70\<close> CRITICAL, else \<open>p \<ge> 0.50\<close> HIGH, else \<open>p \<ge> 0.30\<close> MEDIUM, else \<open>p \<ge> 0.10\<close> LOW,
  else MINIMAL. At the boundaries: 0.70 is CRITICAL, 0.50 HIGH, 0.30 MEDIUM, 0.10 LOW and
  0.0999 MINIMAL.
\<close>

theorem predict_risk_level:
  assumes "data \<noteq> JNull" and "preprocess_input P data = Inr v" and "model pkg v = Inr p"
  shows "(\<exists>r. predict P (Some pkg) (Value data) = (200, Success r) \<and>
             risk_level r =
               (if p \<ge> 0.70 then ''CRITICAL'' else if p \<ge> 0.50 then ''HIGH''
                else if p \<ge> 0.30 then ''MEDIUM'' else if p \<ge> 0.10 then ''LOW''
                else ''MINIMAL'')) \<and>
         fst (risk_tier 0.70) = ''CRITICAL'' \<and> fst (risk_tier 0.50) = ''HIGH'' \<and>
         fst (risk_tier 0.30) = ''MEDIUM'' \<and> fst (risk_tier 0.10) = ''LOW'' \<and>
         fst (risk_tier 0.0999) = ''MINIMAL''"
proof -
  have chain: "fst (risk_tier p) =
      (if p \<ge> 0.70 then ''CRITICAL'' else if p \<ge> 0.50 then ''HIGH''
       else if p \<ge> 0.30 then ''MEDIUM'' else if p \<ge> 0.10 then ''LOW''
       else ''MINIMAL'')"
    by (simp add: risk_tier_def)
  from predict_success [OF assms] obtain r
    where "predict P (Some pkg) (Value data) = (200, Success r)"
      and "risk_level r = fst (risk_tier p)"
    by blast
  then have response: "\<exists>r. predict P (Some pkg) (Value data) = (200, Success r) \<and>
      risk_level r =
        (if p \<ge> 0.70 then ''CRITICAL'' else if p \<ge> 0.50 then ''HIGH''
         else if p \<ge> 0.30 then ''MEDIUM'' else if p \<ge> 0.10 then ''LOW''
         else ''MINIMAL'')"
    unfolding chain by blast
  have bounds: "fst (risk_tier 0.70) = ''CRITICAL''" "fst (risk_tier 0.50) = ''HIGH''"
    "fst (risk_tier 0.30) = ''MEDIUM''" "fst (risk_tier 0.10) = ''LOW''"
    "fst (risk_tier 0.0999) = ''MINIMAL''"
    by (simp_all add: risk_tier_def)
  from response bounds show ?thesis
    by (intro conjI)
qed

theorem predict_risk_level_witness:
  "JObj [''home_country'' \<mapsto> JStr ''US''] \<noteq> JNull \<and>
   preprocess_input decimal_float (JObj [''home_country'' \<mapsto> JStr ''US'']) =
     Inr [2, 0, 0, 0, - (2 / 3), - (9 / 14), - (4 / 5), - (1 / 10), 0, 0, 0, - 2, 0,
          - (5 / 3), - (13 / 5), 0, 0, 0, 0, 0, 0, 0, 0, 0, 0] \<and>
   model sample_package
     [2, 0, 0, 0, - (2 / 3), - (9 / 14), - (4 / 5), - (1 / 10), 0, 0, 0, - 2, 0,
      - (5 / 3), - (13 / 5), 0, 0, 0, 0, 0, 0, 0, 0, 0, 0] = Inr 0.7 \<and>
   (\<exists>r. predict decimal_float (Some sample_package)
          (Value (JObj [''home_country'' \<mapsto> JStr ''US''])) = (200, Success r) \<and>
        risk_level r = ''CRITICAL'')"
proof -
  have 1: "JObj [''home_country'' \<mapsto> JStr ''US''] \<noteq> JNull"
    by simp
  have 3: "model sample_package
     [2, 0, 0, 0, - (2 / 3), - (9 / 14), - (4 / 5), - (1 / 10), 0, 0, 0, - 2, 0,
      - (5 / 3), - (13 / 5), 0, 0, 0, 0, 0, 0, 0, 0, 0, 0] = Inr 0.7"
    by (simp add: sample_package_def)
  from predict_risk_level [OF 1 sample_US 3] 1 sample_US 3 show ?thesis
    by simp
qed

section \<open>When the encoder raises\<close>

text \<open>
  C3, as the code has it. The encoder returns a vector exactly for the requests in which
  every categorical field that is present (other than \<^verbatim>\<open>new_device\<close>) holds a hashable value
  and every numeric field is absent or holds a value that \<^verbatim>\<open>float()\<close> accepts (a boolean, a
  float, an integer within the range of a double, a string it parses); on every other
  request it raises. A missing field never makes it raise: removing a field from
  such a request leaves one, and the empty request is one.
\<close>

theorem preprocess_input_succeeds_iff:
  "((\<exists>v. preprocess_input P (JObj d) = Inr v) \<longleftrightarrow> valid_request P d) \<and>
   ((\<exists>e. preprocess_input P (JObj d) = Inl e) \<longleftrightarrow> \<not> valid_request P d) \<and>
   (valid_request P d \<longrightarrow> valid_request P (d(f := None))) \<and>
   valid_request P Map.empty"
proof (intro conjI)
  show 1: "(\<exists>v. preprocess_input P (JObj d) = Inr v) \<longleftrightarrow> valid_request P d"
    using preprocess_input_valid [of P d] preprocess_input_Inr(1) [of P d] by auto
  show "(\<exists>e. preprocess_input P (JObj d) = Inl e) \<longleftrightarrow> \<not> valid_request P d"
    using 1 by (cases "preprocess_input P (JObj d)") auto
  show "valid_request P d \<longrightarrow> valid_request P (d(f := None))"
    by (simp add: valid_request_remove)
  show "valid_request P Map.empty"
    by (simp add: valid_request_def categorical_ok_def numerical_ok_def list_all_iff data_get_def)
qed

theorem preprocess_input_succeeds_iff_witness:
  "valid_request decimal_float [''home_country'' \<mapsto> JStr ''US''] \<and>
   (\<exists>v. preprocess_input decimal_float (JObj [''home_country'' \<mapsto> JStr ''US'']) = Inr v) \<and>
   valid_request decimal_float ([''home_country'' \<mapsto> JStr ''US''](''home_country'' := None))"
  using preprocess_input_succeeds_iff
    [of decimal_float "[''home_country'' \<mapsto> JStr ''US'']" "''home_country''"] sample_valid
  by simp

text \<open>
  A numeric field holding \<^verbatim>\<open>"abc"\<close>, \<^verbatim>\<open>null\<close> or an integer beyond the range of a double
  makes the encoder raise.
\<close>

theorem preprocess_input_total_counterexample:
  "preprocess_input decimal_float (JObj [''amount_src'' \<mapsto> JStr ''abc'']) =
     Inl (ValueError_float ''abc'') \<and>
   preprocess_input decimal_float (JObj [''amount_src'' \<mapsto> JNull]) =
     Inl (TypeError_float JNull) \<and>
   preprocess_input decimal_float (JObj [''amount_src'' \<mapsto> JInt (10 ^ 309)]) =
     Inl OverflowError_float"
proof -
  have "preprocess_input decimal_float (JObj [''amount_src'' \<mapsto> JNull]) =
     Inl (TypeError_float JNull)"
    by (simp add: table_defs step_defs)
  with sample_abc sample_overflow show ?thesis
    by (intro conjI)
qed

section \<open>A numeric field that is not a number\<close>

text \<open>
  C4, as the code has it. When a numeric field holds a string that \<^verbatim>\<open>float()\<close> refuses,
  the encoder raises and, with a model loaded, the response is 400 with
  \<^verbatim>\<open>success: False\<close> and the text of the exception. When nothing raises before that field
  is reached, the exception is the \<^verbatim>\<open>ValueError\<close> of \<^verbatim>\<open>float()\<close>, which carries the refused
  string and not the name of the field.
\<close>

theorem predict_invalid_numeric:
  assumes "f \<in> set numerical_features" and "d f = Some (JStr s)" and "P s = None"
  shows "\<exists>e. preprocess_input P (JObj d) = Inl e \<and>
             predict P (Some pkg) (Value (JObj d)) = (400, Failure (Str (EncodeError e))) \<and>
             (categorical_ok d CATEGORICAL_MAPPINGS \<and>
              numerical_ok P d (takeWhile (\<lambda>g. g \<noteq> f) numerical_features) \<longrightarrow>
                e = ValueError_float s)"
proof -
  from assms(2,3) have bad: "py_float P (data_get d f (JInt 0)) = Inl (ValueError_float s)"
    by (simp add: data_get_def)
  with assms(1) have "\<not> valid_request P d"
    by (auto simp: valid_request_def numerical_ok_def list_all_iff intro!: bexI [of _ f])
  from preprocess_input_raises [OF this] obtain e where e: "preprocess_input P (JObj d) = Inl e"
    by (auto simp: raises_iff)
  then have "predict P (Some pkg) (Value (JObj d)) = (400, Failure (Str (EncodeError e)))"
    by (simp add: predict_def)
  moreover have "e = ValueError_float s"
    if "categorical_ok d CATEGORICAL_MAPPINGS"
      and "numerical_ok P d (takeWhile (\<lambda>g. g \<noteq> f) numerical_features)"
    using preprocess_input_first_error [OF that(1) assms(1) that(2) bad] e by simp
  ultimately show ?thesis using e by blast
qed

theorem predict_invalid_numeric_witness:
  "''fee'' \<in> set numerical_features \<and>
   [''fee'' \<mapsto> JStr ''abc''] ''fee'' = Some (JStr ''abc'') \<and>
   decimal_float ''abc'' = None \<and>
   categorical_ok [''fee'' \<mapsto> JStr ''abc''] CATEGORICAL_MAPPINGS \<and>
   numerical_ok decimal_float [''fee'' \<mapsto> JStr ''abc'']
     (takeWhile (\<lambda>g. g \<noteq> ''fee'') numerical_features) \<and>
   preprocess_input decimal_float (JObj [''fee'' \<mapsto> JStr ''abc'']) =
     Inl (ValueError_float ''abc'') \<and>
   predict decimal_float (Some sample_package) (Value (JObj [''fee'' \<mapsto> JStr ''abc''])) =
     (400, Failure (Str (EncodeError (ValueError_float ''abc''))))"
proof -
  have 1: "''fee'' \<in> set numerical_features"
    by (simp add: numerical_features_def)
  have 2: "[''fee'' \<mapsto> JStr ''abc''] ''fee'' = Some (JStr ''abc'')"
    by simp
  have 3: "decimal_float ''abc'' = None"
    by (simp add: parse_defs)
  have 4: "categorical_ok [''fee'' \<mapsto> JStr ''abc''] CATEGORICAL_MAPPINGS"
    by (simp add: categorical_ok_def CATEGORICAL_MAPPINGS_def)
  have 5: "numerical_ok decimal_float [''fee'' \<mapsto> JStr ''abc'']
     (takeWhile (\<lambda>g. g \<noteq> ''fee'') numerical_features)"
    by (simp add: numerical_ok_def numerical_features_def data_get_def)
  from predict_invalid_numeric
    [where f = "''fee''" and d = "[''fee'' \<mapsto> JStr ''abc'']" and s = "''abc''"
       and P = decimal_float and pkg = sample_package, OF 1 2 3] 4 5
  have "preprocess_input decimal_float (JObj [''fee'' \<mapsto> JStr ''abc'']) =
     Inl (ValueError_float ''abc'') \<and>
   predict decimal_float (Some sample_package) (Value (JObj [''fee'' \<mapsto> JStr ''abc''])) =
     (400, Failure (Str (EncodeError (ValueError_float ''abc''))))"
    by auto
  with 1 2 3 4 5 show ?thesis
    by (intro conjI) simp_all
qed

text \<open>
  The response does not tell which field was wrong: \<^verbatim>\<open>"abc"\<close> in \<^verbatim>\<open>amount_src\<close> and
  \<^verbatim>\<open>"abc"\<close> in \<^verbatim>\<open>fee\<close> get the same response, which carries the value only.
\<close>

theorem predict_invalid_numeric_counterexample:
  "predict decimal_float (Some sample_package) (Value (JObj [''amount_src'' \<mapsto> JStr ''abc''])) =
     (400, Failure (Str (EncodeError (ValueError_float ''abc'')))) \<and>
   predict decimal_float (Some sample_package) (Value (JObj [''fee'' \<mapsto> JStr ''abc''])) =
     (400, Failure (Str (EncodeError (ValueError_float ''abc''))))"
  by (simp add: predict_def table_defs step_defs parse_defs)

section \<open>Unrecognized categorical values\<close>

lemma unrecognized_encode_value:
  assumes "(f, m) \<in> set CATEGORICAL_MAPPINGS" and "unrecognized_token f m t"
  shows "encode_value f m t = Inr 0"
proof (cases "f = ''new_device''")
  case True
  with assms(1) have m: "m = [(KBool False, 0), (KBool True, 1)]"
    by (simp add: new_device_table)
  from assms(2) True have "\<not> py_eq t (KStr ''true'')" and "\<not> py_eq t (KBool True)"
    by (simp_all add: unrecognized_token_def m)
  then show ?thesis
    by (simp add: encode_value_def mapping_get_def True m)
next
  case False
  with assms(2) have "hashable t" and "find (\<lambda>kc. py_eq t (fst kc)) m = None"
    by (auto simp: unrecognized_token_def find_None_iff list_all_iff)
  with False show ?thesis
    by (simp add: encode_value_def mapping_get_def)
qed

lemma unrecognized_valid:
  assumes "(f, m) \<in> set CATEGORICAL_MAPPINGS" and "d f = Some t"
    and "unrecognized_token f m t"
  shows "valid_request P (d(f := None)) \<longleftrightarrow> valid_request P d"
proof -
  from assms(3) have ok: "f = ''new_device'' \<or> hashable t"
    by (auto simp: unrecognized_token_def split: if_splits)
  have "data_get (d(f := None)) g (JInt 0) = data_get d g (JInt 0)"
    if "g \<in> set numerical_features" for g
    using that categorical_entry(1) [OF assms(1)] by (auto simp: data_get_def)
  then have num: "numerical_ok P (d(f := None)) numerical_features \<longleftrightarrow>
             numerical_ok P d numerical_features"
    by (simp add: numerical_ok_def list_all_iff)
  have eq: "(case (d(f := None)) (fst fm) of None \<Rightarrow> True
                   | Some v \<Rightarrow> fst fm = ''new_device'' \<or> hashable v) \<longleftrightarrow>
                 (case d (fst fm) of None \<Rightarrow> True
                   | Some v \<Rightarrow> fst fm = ''new_device'' \<or> hashable v)" for fm
    using ok assms(2) by (cases "fst fm = f") auto
  have "categorical_ok (d(f := None)) CATEGORICAL_MAPPINGS \<longleftrightarrow>
        categorical_ok d CATEGORICAL_MAPPINGS"
    by (simp only: categorical_ok_def list_all_iff eq)
  with num show ?thesis
    by (simp add: valid_request_def)
qed

lemma unrecognized_encoded:
  assumes "(f, m) \<in> set CATEGORICAL_MAPPINGS" and "d f = Some t"
    and "unrecognized_token f m t"
  shows "encoded ROBUST_SCALE_PARAMS STANDARD_SCALE_PARAMS P d f = Some 0"
    and "encoded ROBUST_SCALE_PARAMS STANDARD_SCALE_PARAMS P (d(f := None)) f = None"
proof -
  note e = categorical_entry [OF assms(1)]
  from distinct_tables(1) assms(1) have m: "map_of CATEGORICAL_MAPPINGS f = Some m"
    by (rule map_of_is_SomeI)
  show "encoded ROBUST_SCALE_PARAMS STANDARD_SCALE_PARAMS P d f = Some 0"
    by (simp add: encoded_categorical [OF e] categorical_codes_def m assms(2)
        unrecognized_encode_value [OF assms(1,3)])
  show "encoded ROBUST_SCALE_PARAMS STANDARD_SCALE_PARAMS P (d(f := None)) f = None"
    by (simp add: encoded_categorical [OF e] categorical_codes_def m)
qed

text \<open>
  C5. A categorical field holding a value that is none of the keys of its table is
  encoded to the code 0: the lookup does not raise; the encoder raises on the request
  exactly when it raises on the request without that field, so the value is never what
  makes it raise; and when the request is encoded, the result is the one of the request
  without that field, with 0 at the position of the field. The witness is
  \<^verbatim>\<open>home_country\<close> = \<^verbatim>\<open>"ZZ"\<close>.
\<close>

theorem unrecognized_token_fallback:
  assumes "(f, m) \<in> set CATEGORICAL_MAPPINGS" and "d f = Some t"
    and "unrecognized_token f m t"
  shows "encode_value f m t = Inr 0 \<and>
         ((\<exists>e. preprocess_input P (JObj d) = Inl e) \<longleftrightarrow>
          (\<exists>e. preprocess_input P (JObj (d(f := None))) = Inl e)) \<and>
         (\<forall>v. preprocess_input P (JObj d) = Inr v \<longrightarrow>
            preprocess_input P (JObj (d(f := None))) = Inr v \<and>
            (\<forall>i<25. FEATURE_ORDER ! i = f \<longrightarrow> v ! i = 0))"
proof -
  note valid = unrecognized_valid [where f = f and m = m and d = d and t = t and P = P, OF assms]
  note enc = unrecognized_encoded [where f = f and m = m and d = d and t = t and P = P, OF assms]
  have code: "encode_value f m t = Inr 0"
    by (rule unrecognized_encode_value [OF assms(1,3)])
  have "(\<exists>e. preprocess_input P (JObj d') = Inl e) \<longleftrightarrow> \<not> valid_request P d'" for d'
    using preprocess_input_valid [of P d'] preprocess_input_Inr(1) [of P d']
    by (cases "preprocess_input P (JObj d')") auto
  with valid have fails: "(\<exists>e. preprocess_input P (JObj d) = Inl e) \<longleftrightarrow>
          (\<exists>e. preprocess_input P (JObj (d(f := None))) = Inl e)"
    by simp
  have same: "preprocess_input P (JObj (d(f := None))) = Inr v \<and>
      (\<forall>i<25. FEATURE_ORDER ! i = f \<longrightarrow> v ! i = 0)"
    if v: "preprocess_input P (JObj d) = Inr v" for v
  proof
    from preprocess_input_Inr [OF v]
    have ok: "valid_request P d"
      and v_eq: "v = feature_array (encoded ROBUST_SCALE_PARAMS STANDARD_SCALE_PARAMS P d)"
      by simp_all
    have "(case encoded ROBUST_SCALE_PARAMS STANDARD_SCALE_PARAMS P (d(f := None)) g of
             None \<Rightarrow> 0 | Some x \<Rightarrow> x) =
          (case encoded ROBUST_SCALE_PARAMS STANDARD_SCALE_PARAMS P d g of
             None \<Rightarrow> (0::real) | Some x \<Rightarrow> x)" for g
      using enc encoded_remove_other [OF _ categorical_entry(2) [OF assms(1)], of g]
      by (cases "g = f") simp_all
    then have "feature_array (encoded ROBUST_SCALE_PARAMS STANDARD_SCALE_PARAMS P (d(f := None))) = v"
      by (simp add: v_eq feature_array_def)
    with ok valid show "preprocess_input P (JObj (d(f := None))) = Inr v"
      by (simp add: preprocess_input_valid)
    show "\<forall>i<25. FEATURE_ORDER ! i = f \<longrightarrow> v ! i = 0"
      by (auto simp: v_eq feature_array_nth enc(1))
  qed
  from code fails same show ?thesis
    by blast
qed

theorem unrecognized_token_fallback_witness:
  "(''home_country'', [(KStr ''CA'', 0), (KStr ''UK'', 1), (KStr ''US'', 2)])
     \<in> set CATEGORICAL_MAPPINGS \<and>
   [''home_country'' \<mapsto> JStr ''ZZ''] ''home_country'' = Some (JStr ''ZZ'') \<and>
   unrecognized_token ''home_country'' [(KStr ''CA'', 0), (KStr ''UK'', 1), (KStr ''US'', 2)]
     (JStr ''ZZ'') \<and>
   encode_value ''home_country'' [(KStr ''CA'', 0), (KStr ''UK'', 1), (KStr ''US'', 2)]
     (JStr ''ZZ'') = Inr 0 \<and>
   preprocess_input decimal_float (JObj [''home_country'' \<mapsto> JStr ''ZZ'']) =
     Inr [0, 0, 0, 0, - (2 / 3), - (9 / 14), - (4 / 5), - (1 / 10), 0, 0, 0, - 2, 0,
          - (5 / 3), - (13 / 5), 0, 0, 0, 0, 0, 0, 0, 0, 0, 0] \<and>
   preprocess_input decimal_float
     (JObj ([''home_country'' \<mapsto> JStr ''ZZ''](''home_country'' := None))) =
     Inr [0, 0, 0, 0, - (2 / 3), - (9 / 14), - (4 / 5), - (1 / 10), 0, 0, 0, - 2, 0,
          - (5 / 3), - (13 / 5), 0, 0, 0, 0, 0, 0, 0, 0, 0, 0]"
proof -
  have 1: "(''home_country'', [(KStr ''CA'', 0), (KStr ''UK'', 1), (KStr ''US'', 2)])
     \<in> set CATEGORICAL_MAPPINGS"
    by (simp add: CATEGORICAL_MAPPINGS_def)
  have 2: "[''home_country'' \<mapsto> JStr ''ZZ''] ''home_country'' = Some (JStr ''ZZ'')"
    by simp
  have 3: "unrecognized_token ''home_country''
      [(KStr ''CA'', 0), (KStr ''UK'', 1), (KStr ''US'', 2)] (JStr ''ZZ'')"
    by (simp add: unrecognized_token_def)
  note inst = unrecognized_token_fallback
    [where f = "''home_country''" and d = "[''home_country'' \<mapsto> JStr ''ZZ'']"
       and t = "JStr ''ZZ''" and P = decimal_float, OF 1 2 3]
  from inst have 4: "encode_value ''home_country''
      [(KStr ''CA'', 0), (KStr ''UK'', 1), (KStr ''US'', 2)] (JStr ''ZZ'') = Inr 0"
    by (elim conjE)
  from inst sample_ZZ have 5: "preprocess_input decimal_float
     (JObj ([''home_country'' \<mapsto> JStr ''ZZ''](''home_country'' := None))) =
     Inr [0, 0, 0, 0, - (2 / 3), - (9 / 14), - (4 / 5), - (1 / 10), 0, 0, 0, - 2, 0,
          - (5 / 3), - (13 / 5), 0, 0, 0, 0, 0, 0, 0, 0, 0, 0]"
    by blast
  from 1 2 3 4 sample_ZZ 5 show ?thesis
    by (intro conjI)
qed

section \<open>Robust scaling\<close>

text \<open>
  C6. Whenever the request is encoded, the value at the position of each of the five
  features of \<^verbatim>\<open>ROBUST_SCALE_PARAMS\<close> is \<open>(x - median) / iqr\<close>, where \<open>x\<close> is the \<^verbatim>\<open>float()\<close> of
  the raw value and \<open>median\<close>, \<open>iqr\<close> are the feature's entries of the table. With any
  table in the place of \<^verbatim>\<open>ROBUST_SCALE_PARAMS\<close>, the value is \<open>(x - median) / iqr\<close> when
  \<open>iqr \<noteq> 0\<close> and 0 when \<open>iqr = 0\<close>. For \<^verbatim>\<open>amount_src\<close> = 500 the value is
  \<open>(500 - 200.0) / 300.0 = 1\<close>.
\<close>

theorem robust_scaling:
  "(\<forall>v i median iqr.
      preprocess_input P (JObj d) = Inr v \<longrightarrow> i < 25 \<longrightarrow>
      (FEATURE_ORDER ! i, median, iqr) \<in> set ROBUST_SCALE_PARAMS \<longrightarrow>
      (\<exists>x. py_float P (data_get d (FEATURE_ORDER ! i) (JInt 0)) = Inr x \<and>
           v ! i = (x - median) / iqr)) \<and>
   (\<forall>robust v i median iqr.
      preprocess_with robust STANDARD_SCALE_PARAMS P d = Inr v \<longrightarrow>
      distinct (map fst robust) \<longrightarrow> i < 25 \<longrightarrow>
      (FEATURE_ORDER ! i, median, iqr) \<in> set robust \<longrightarrow>
      FEATURE_ORDER ! i \<in> set numerical_features \<longrightarrow>
      map_of STANDARD_SCALE_PARAMS (FEATURE_ORDER ! i) = None \<longrightarrow>
      (\<exists>x. py_float P (data_get d (FEATURE_ORDER ! i) (JInt 0)) = Inr x \<and>
           v ! i = (if iqr \<noteq> 0 then (x - median) / iqr else 0))) \<and>
   (\<forall>v. preprocess_input P (JObj d) = Inr v \<longrightarrow>
      py_float P (data_get d ''amount_src'' (JInt 0)) = Inr 500 \<longrightarrow>
      v ! 4 = (500 - 200.0) / 300.0 \<and> v ! 4 = 1) \<and>
   map fst ROBUST_SCALE_PARAMS =
     [''amount_src'', ''amount_usd'', ''fee'', ''exchange_rate_src_to_dest'',
      ''chargeback_history_count''] \<and>
   set (map fst ROBUST_SCALE_PARAMS) \<subseteq> set FEATURE_ORDER"
proof (intro conjI allI impI)
  fix v i median iqr
  assume v: "preprocess_input P (JObj d) = Inr v" and i: "i < 25"
    and entry: "(FEATURE_ORDER ! i, median, iqr) \<in> set ROBUST_SCALE_PARAMS"
  from v have "preprocess_with ROBUST_SCALE_PARAMS STANDARD_SCALE_PARAMS P d = Inr v"
    by (simp add: preprocess_input.simps)
  from preprocess_with_robust [OF this distinct_tables(2) i entry]
    robust_entry [OF entry]
  show "\<exists>x. py_float P (data_get d (FEATURE_ORDER ! i) (JInt 0)) = Inr x \<and>
           v ! i = (x - median) / iqr"
    by simp
next
  fix robust v i median iqr
  assume "preprocess_with robust STANDARD_SCALE_PARAMS P d = Inr v"
    "distinct (map fst robust)" "i < 25" "(FEATURE_ORDER ! i, median, iqr) \<in> set robust"
    "FEATURE_ORDER ! i \<in> set numerical_features"
    "map_of STANDARD_SCALE_PARAMS (FEATURE_ORDER ! i) = None"
  then show "\<exists>x. py_float P (data_get d (FEATURE_ORDER ! i) (JInt 0)) = Inr x \<and>
           v ! i = (if iqr \<noteq> 0 then (x - median) / iqr else 0)"
    by (rule preprocess_with_robust)
next
  fix v
  assume v: "preprocess_input P (JObj d) = Inr v"
    and x: "py_float P (data_get d ''amount_src'' (JInt 0)) = Inr 500"
  have 4: "FEATURE_ORDER ! 4 = ''amount_src''"
    by (simp add: FEATURE_ORDER_def)
  have "encoded ROBUST_SCALE_PARAMS STANDARD_SCALE_PARAMS P d ''amount_src'' =
          Some (if (300::real) \<noteq> 0 then (500 - 200) / 300 else 0)"
    by (rule encoded_robust [OF x]) (simp_all add: table_defs)
  with preprocess_input_Inr(2) [OF v] have "v ! 4 = 1"
    by (simp add: feature_array_nth 4)
  then show "v ! 4 = (500 - 200.0) / 300.0" and "v ! 4 = 1"
    by simp_all
next
  show "map fst ROBUST_SCALE_PARAMS =
     [''amount_src'', ''amount_usd'', ''fee'', ''exchange_rate_src_to_dest'',
      ''chargeback_history_count'']"
    by (simp add: ROBUST_SCALE_PARAMS_def)
  show "set (map fst ROBUST_SCALE_PARAMS) \<subseteq> set FEATURE_ORDER"
    by (simp add: table_defs)
qed

theorem robust_scaling_witness:
  "preprocess_input decimal_float (JObj [''amount_src'' \<mapsto> JInt 500]) =
     Inr [0, 0, 0, 0, 1, - (9 / 14), - (4 / 5), - (1 / 10), 0, 0, 0, - 2, 0,
          - (5 / 3), - (13 / 5), 0, 0, 0, 0, 0, 0, 0, 0, 0, 0] \<and>
   py_float decimal_float (data_get [''amount_src'' \<mapsto> JInt 500] ''amount_src'' (JInt 0)) =
     Inr 500 \<and>
   [0, 0, 0, 0, 1, - (9 / 14), - (4 / 5), - (1 / 10), 0, 0, 0, - 2, 0,
          - (5 / 3), - (13 / 5), 0, 0, 0, 0, 0, 0, 0, 0, 0, 0 :: real] ! 4 = 1 \<and>
   preprocess_with [(''amount_src'', 200, 0)] STANDARD_SCALE_PARAMS decimal_float
     [''amount_src'' \<mapsto> JInt 500] =
     Inr [0, 0, 0, 0, 0, 0, 0, 0, 0, 0, 0, - 2, 0,
          - (5 / 3), - (13 / 5), 0, 0, 0, 0, 0, 0, 0, 0, 0, 0] \<and>
   distinct (map fst [(''amount_src'', 200 :: real, 0 :: real)]) \<and>
   (4::nat) < 25 \<and>
   (FEATURE_ORDER ! 4, 200, 0) \<in> set [(''amount_src'', 200 :: real, 0 :: real)] \<and>
   FEATURE_ORDER ! 4 \<in> set numerical_features \<and>
   map_of STANDARD_SCALE_PARAMS (FEATURE_ORDER ! 4) = None \<and>
   [0, 0, 0, 0, 0, 0, 0, 0, 0, 0, 0, - 2, 0,
          - (5 / 3), - (13 / 5), 0, 0, 0, 0, 0, 0, 0, 0, 0, 0 :: real] ! 4 = 0"
proof -
  note inst = robust_scaling [of decimal_float "[''amount_src'' \<mapsto> JInt 500]"]
  have x: "py_float decimal_float
      (data_get [''amount_src'' \<mapsto> JInt 500] ''amount_src'' (JInt 0)) = Inr 500"
    by (simp add: data_get_def)
  from inst sample_500 x
  have a: "[0, 0, 0, 0, 1, - (9 / 14), - (4 / 5), - (1 / 10), 0, 0, 0, - 2, 0,
          - (5 / 3), - (13 / 5), 0, 0, 0, 0, 0, 0, 0, 0, 0, 0 :: real] ! 4 = 1"
    by blast
  have h: "distinct (map fst [(''amount_src'', 200 :: real, 0 :: real)])" "(4::nat) < 25"
    "(FEATURE_ORDER ! 4, 200, 0) \<in> set [(''amount_src'', 200 :: real, 0 :: real)]"
    "FEATURE_ORDER ! 4 \<in> set numerical_features"
    "map_of STANDARD_SCALE_PARAMS (FEATURE_ORDER ! 4) = None"
    by (simp_all add: table_defs)
  from inst have "\<forall>robust v i median iqr.
      preprocess_with robust STANDARD_SCALE_PARAMS decimal_float
        [''amount_src'' \<mapsto> JInt 500] = Inr v \<longrightarrow>
      distinct (map fst robust) \<longrightarrow> i < 25 \<longrightarrow>
      (FEATURE_ORDER ! i, median, iqr) \<in> set robust \<longrightarrow>
      FEATURE_ORDER ! i \<in> set numerical_features \<longrightarrow>
      map_of STANDARD_SCALE_PARAMS (FEATURE_ORDER ! i) = None \<longrightarrow>
      (\<exists>x. py_float decimal_float
             (data_get [''amount_src'' \<mapsto> JInt 500] (FEATURE_ORDER ! i) (JInt 0)) = Inr x \<and>
           v ! i = (if iqr \<noteq> 0 then (x - median) / iqr else 0))"
    by (elim conjE)
  from this [rule_format, OF sample_zero_iqr h]
  have b: "[0, 0, 0, 0, 0, 0, 0, 0, 0, 0, 0, - 2, 0,
          - (5 / 3), - (13 / 5), 0, 0, 0, 0, 0, 0, 0, 0, 0, 0 :: real] ! 4 = 0"
    by simp
  from sample_500 x a sample_zero_iqr h b show ?thesis
    by (intro conjI)
qed

section \<open>The two boolean features\<close>

text \<open>
  C7. Whenever the request is encoded, the feature \<^verbatim>\<open>location_mismatch\<close> (position 10 of
  the vector) is 1 if the raw value is the string "true", the boolean true, the number 1
  (as an \<^verbatim>\<open>int\<close> or a \<^verbatim>\<open>float\<close>) or the string "1", and 0 for every other value and for a
  missing field.
\<close>

theorem location_mismatch_feature:
  "FEATURE_ORDER ! 10 = ''location_mismatch'' \<and>
   (\<forall>v. preprocess_input P (JObj d) = Inr v \<longrightarrow>
      v ! 10 =
        (if d ''location_mismatch'' \<in>
              {Some (JStr ''true''), Some (JBool True), Some (JInt 1), Some (JFloat 1),
               Some (JStr ''1'')}
         then 1 else 0))"
proof -
  have "v ! 10 = of_int (location_mismatch d)" if "preprocess_input P (JObj d) = Inr v" for v
    using preprocess_input_Inr(2) [OF that]
    by (simp add: feature_array_nth encoded_location_mismatch) (simp add: FEATURE_ORDER_def encoded_location_mismatch)
  then show ?thesis
    by (simp add: location_mismatch_cases) (simp add: FEATURE_ORDER_def)
qed

theorem location_mismatch_feature_witness:
  "preprocess_input decimal_float
     (JObj [''location_mismatch'' \<mapsto> JStr ''1'', ''new_device'' \<mapsto> JInt 1]) =
     Inr [0, 0, 0, 0, - (2 / 3), - (9 / 14), - (4 / 5), - (1 / 10), 1, 0, 1, - 2, 0,
          - (5 / 3), - (13 / 5), 0, 0, 0, 0, 0, 0, 0, 0, 0, 0] \<and>
   [0, 0, 0, 0, - (2 / 3), - (9 / 14), - (4 / 5), - (1 / 10), 1, 0, 1, - 2, 0,
          - (5 / 3), - (13 / 5), 0, 0, 0, 0, 0, 0, 0, 0, 0, 0 :: real] ! 10 = 1"
proof -
  from location_mismatch_feature
    [of decimal_float "[''location_mismatch'' \<mapsto> JStr ''1'', ''new_device'' \<mapsto> JInt 1]"]
    sample_flags
  have "[0, 0, 0, 0, - (2 / 3), - (9 / 14), - (4 / 5), - (1 / 10), 1, 0, 1, - 2, 0,
          - (5 / 3), - (13 / 5), 0, 0, 0, 0, 0, 0, 0, 0, 0, 0 :: real] ! 10 =
        (if [''location_mismatch'' \<mapsto> JStr ''1'', ''new_device'' \<mapsto> JInt 1] ''location_mismatch'' \<in>
              {Some (JStr ''true''), Some (JBool True), Some (JInt 1), Some (JFloat 1),
               Some (JStr ''1'')}
         then 1 else 0)"
    by blast
  with sample_flags show ?thesis by simp
qed

text \<open>
  C9, as the code has it. Whenever the request is encoded, the feature \<^verbatim>\<open>new_device\<close>
  (position 8 of the vector) is 1 exactly when the raw value equals \<^verbatim>\<open>'true'\<close> or \<^verbatim>\<open>True\<close>
  under Python's \<^verbatim>\<open>==\<close>: the string "true", the boolean true, or the number 1 (as an
  \<^verbatim>\<open>int\<close> or a \<^verbatim>\<open>float\<close>). Every other raw value, and a missing field, gives 0.
\<close>

theorem new_device_feature:
  "FEATURE_ORDER ! 8 = ''new_device'' \<and>
   (\<forall>v. preprocess_input P (JObj d) = Inr v \<longrightarrow>
      v ! 8 =
        (if d ''new_device'' \<in>
              {Some (JStr ''true''), Some (JBool True), Some (JInt 1), Some (JFloat 1)}
         then 1 else 0))"
proof -
  have nd: "FEATURE_ORDER ! 8 = ''new_device''"
    by (simp add: FEATURE_ORDER_def)
  have enc: "encoded ROBUST_SCALE_PARAMS STANDARD_SCALE_PARAMS P d ''new_device'' =
      categorical_codes d CATEGORICAL_MAPPINGS Map.empty ''new_device''"
    by (rule encoded_categorical) (simp_all add: table_defs)
  have "v ! 8 = (if d ''new_device'' \<in>
              {Some (JStr ''true''), Some (JBool True), Some (JInt 1), Some (JFloat 1)}
         then 1 else 0)" if "preprocess_input P (JObj d) = Inr v" for v
    using preprocess_input_Inr(2) [OF that]
    by (auto simp: feature_array_nth nd enc new_device_code split: option.splits)
  with nd show ?thesis by blast
qed

theorem new_device_feature_witness:
  "preprocess_input decimal_float
     (JObj [''location_mismatch'' \<mapsto> JStr ''1'', ''new_device'' \<mapsto> JInt 1]) =
     Inr [0, 0, 0, 0, - (2 / 3), - (9 / 14), - (4 / 5), - (1 / 10), 1, 0, 1, - 2, 0,
          - (5 / 3), - (13 / 5), 0, 0, 0, 0, 0, 0, 0, 0, 0, 0] \<and>
   [0, 0, 0, 0, - (2 / 3), - (9 / 14), - (4 / 5), - (1 / 10), 1, 0, 1, - 2, 0,
          - (5 / 3), - (13 / 5), 0, 0, 0, 0, 0, 0, 0, 0, 0, 0 :: real] ! 8 = 1"
proof -
  from new_device_feature
    [of decimal_float "[''location_mismatch'' \<mapsto> JStr ''1'', ''new_device'' \<mapsto> JInt 1]"]
    sample_flags
  have "[0, 0, 0, 0, - (2 / 3), - (9 / 14), - (4 / 5), - (1 / 10), 1, 0, 1, - 2, 0,
          - (5 / 3), - (13 / 5), 0, 0, 0, 0, 0, 0, 0, 0, 0, 0 :: real] ! 8 =
        (if [''location_mismatch'' \<mapsto> JStr ''1'', ''new_device'' \<mapsto> JInt 1] ''new_device'' \<in>
              {Some (JStr ''true''), Some (JBool True), Some (JInt 1), Some (JFloat 1)}
         then 1 else 0)"
    by blast
  with sample_flags show ?thesis by simp
qed

text \<open>The number 1 in \<^verbatim>\<open>new_device\<close> is encoded to 1, as \<^verbatim>\<open>1 == True\<close> holds in Python.\<close>

theorem new_device_feature_counterexample:
  "preprocess_input decimal_float (JObj [''new_device'' \<mapsto> JInt 1]) =
     Inr [0, 0, 0, 0, - (2 / 3), - (9 / 14), - (4 / 5), - (1 / 10), 1, 0, 0, - 2, 0,
          - (5 / 3), - (13 / 5), 0, 0, 0, 0, 0, 0, 0, 0, 0, 0] \<and>
   [0, 0, 0, 0, - (2 / 3), - (9 / 14), - (4 / 5), - (1 / 10), 1, 0, 0, - 2, 0,
          - (5 / 3), - (13 / 5), 0, 0, 0, 0, 0, 0, 0, 0, 0, 0 :: real] ! 8 = 1"
  by (simp add: table_defs step_defs)

section \<open>No model loaded\<close>

text \<open>
  C8, as the code has it. With no model package loaded, every call whose body is a JSON
  value other than \<^verbatim>\<open>null\<close> is answered 500 with
  \<^verbatim>\<open>Model not loaded. Please check if the model file exists.\<close>; a \<^verbatim>\<open>null\<close> body and a body
  that is not JSON are answered 400, since both are handled before the model is looked at.
  The handler never assigns \<^verbatim>\<open>model_package\<close>, so this holds for every call of the process.
\<close>

theorem predict_without_model:
  "(data \<noteq> JNull \<longrightarrow>
      predict P None (Value data) =
        (500, Failure (Text ''Model not loaded. Please check if the model file exists.''))) \<and>
   predict P None (Value JNull) = (400, Failure (Text ''No JSON data received'')) \<and>
   predict P None (Raises e) = (400, Failure (Str (HTTPError e)))"
  by (cases data) (simp_all add: predict_def)

theorem predict_without_model_witness:
  "JObj [''home_country'' \<mapsto> JStr ''US''] \<noteq> JNull \<and>
   predict decimal_float None (Value (JObj [''home_country'' \<mapsto> JStr ''US''])) =
     (500, Failure (Text ''Model not loaded. Please check if the model file exists.''))"
  using predict_without_model [of "JObj [''home_country'' \<mapsto> JStr ''US'']" decimal_float]
  by simp

text \<open>With no model loaded, a \<^verbatim>\<open>null\<close> body is answered 400, not 500.\<close>

theorem predict_without_model_counterexample:
  "predict decimal_float None (Value JNull) = (400, Failure (Text ''No JSON data received''))"
  by (simp add: predict_def)

section \<open>The numeric features that are not scaled\<close>

text \<open>
  C10. Whenever the request is encoded, the positions 16 to 19 of the vector hold
  \<^verbatim>\<open>risk_score_internal\<close>, \<^verbatim>\<open>txn_velocity_1h\<close>, \<^verbatim>\<open>txn_velocity_24h\<close> and \<^verbatim>\<open>corridor_risk\<close> as
  the \<^verbatim>\<open>float()\<close> of their raw values, unscaled, and 0 when the field is missing. The other
  eight numeric features, five of \<^verbatim>\<open>ROBUST_SCALE_PARAMS\<close> and three of
  \<^verbatim>\<open>STANDARD_SCALE_PARAMS\<close>, are the ones that are scaled.
\<close>

theorem unscaled_numeric_features:
  "FEATURE_ORDER ! 16 = ''risk_score_internal'' \<and> FEATURE_ORDER ! 17 = ''txn_velocity_1h'' \<and>
   FEATURE_ORDER ! 18 = ''txn_velocity_24h'' \<and> FEATURE_ORDER ! 19 = ''corridor_risk'' \<and>
   (\<forall>v i. preprocess_input P (JObj d) = Inr v \<longrightarrow> i \<in> {16, 17, 18, 19} \<longrightarrow>
      py_float P (data_get d (FEATURE_ORDER ! i) (JInt 0)) = Inr (v ! i) \<and>
      (d (FEATURE_ORDER ! i) = None \<longrightarrow> v ! i = 0)) \<and>
   (\<forall>v i c s. preprocess_input P (JObj d) = Inr v \<longrightarrow> i < 25 \<longrightarrow>
      (FEATURE_ORDER ! i, c, s) \<in> set (ROBUST_SCALE_PARAMS @ STANDARD_SCALE_PARAMS) \<longrightarrow>
      (\<exists>x. py_float P (data_get d (FEATURE_ORDER ! i) (JInt 0)) = Inr x \<and>
           v ! i = (x - c) / s)) \<and>
   set numerical_features =
     {''risk_score_internal'', ''txn_velocity_1h'', ''txn_velocity_24h'', ''corridor_risk''} \<union>
     fst ` set (ROBUST_SCALE_PARAMS @ STANDARD_SCALE_PARAMS) \<and>
   length ROBUST_SCALE_PARAMS = 5 \<and> length STANDARD_SCALE_PARAMS = 3"
proof -
  have pos: "FEATURE_ORDER ! 16 = ''risk_score_internal''"
    "FEATURE_ORDER ! 17 = ''txn_velocity_1h''"
    "FEATURE_ORDER ! 18 = ''txn_velocity_24h''" "FEATURE_ORDER ! 19 = ''corridor_risk''"
    by (simp_all add: FEATURE_ORDER_def)
  have unscaled: "py_float P (data_get d (FEATURE_ORDER ! i) (JInt 0)) = Inr (v ! i) \<and>
      (d (FEATURE_ORDER ! i) = None \<longrightarrow> v ! i = 0)"
    if v: "preprocess_input P (JObj d) = Inr v" and i: "i \<in> {16, 17, 18, 19}" for v i
  proof -
    from i have "i < 25" and "FEATURE_ORDER ! i \<in>
      {''risk_score_internal'', ''txn_velocity_1h'', ''txn_velocity_24h'', ''corridor_risk''}"
      using pos by auto
    from preprocess_input_unscaled [OF v this]
    have x: "py_float P (data_get d (FEATURE_ORDER ! i) (JInt 0)) = Inr (v ! i)" .
    then have "v ! i = 0" if "d (FEATURE_ORDER ! i) = None"
      using that by (simp add: data_get_def)
    with x show ?thesis by blast
  qed
  have scaled: "\<exists>x. py_float P (data_get d (FEATURE_ORDER ! i) (JInt 0)) = Inr x \<and>
           v ! i = (x - c) / s"
    if "preprocess_input P (JObj d) = Inr v" "i < 25"
      "(FEATURE_ORDER ! i, c, s) \<in> set (ROBUST_SCALE_PARAMS @ STANDARD_SCALE_PARAMS)"
    for v i c s
    using that preprocess_input_robust [of P d v i c s] preprocess_input_standard [of P d v i c s]
    by auto
  have part: "set numerical_features =
     {''risk_score_internal'', ''txn_velocity_1h'', ''txn_velocity_24h'', ''corridor_risk''} \<union>
     fst ` set (ROBUST_SCALE_PARAMS @ STANDARD_SCALE_PARAMS)"
    by (auto simp: numerical_features_def ROBUST_SCALE_PARAMS_def STANDARD_SCALE_PARAMS_def)
  have len: "length ROBUST_SCALE_PARAMS = 5" "length STANDARD_SCALE_PARAMS = 3"
    by (simp_all add: ROBUST_SCALE_PARAMS_def STANDARD_SCALE_PARAMS_def)
  from pos unscaled scaled part len show ?thesis
    by (intro conjI allI impI) blast+
qed

theorem unscaled_numeric_features_witness:
  "preprocess_input decimal_float (JObj [''risk_score_internal'' \<mapsto> JFloat 0.8]) =
     Inr [0, 0, 0, 0, - (2 / 3), - (9 / 14), - (4 / 5), - (1 / 10), 0, 0, 0, - 2, 0,
          - (5 / 3), - (13 / 5), 0, 0.8, 0, 0, 0, 0, 0, 0, 0, 0] \<and>
   (16::nat) \<in> {16, 17, 18, 19} \<and>
   py_float decimal_float
     (data_get [''risk_score_internal'' \<mapsto> JFloat 0.8] (FEATURE_ORDER ! 16) (JInt 0)) =
     Inr ([0, 0, 0, 0, - (2 / 3), - (9 / 14), - (4 / 5), - (1 / 10), 0, 0, 0, - 2, 0,
          - (5 / 3), - (13 / 5), 0, 0.8, 0, 0, 0, 0, 0, 0, 0, 0] ! 16)"
proof -
  have i: "(16::nat) \<in> {16, 17, 18, 19}" by simp
  from unscaled_numeric_features [of decimal_float "[''risk_score_internal'' \<mapsto> JFloat 0.8]"]
  have "\<forall>v i. preprocess_input decimal_float
            (JObj [''risk_score_internal'' \<mapsto> JFloat 0.8]) = Inr v \<longrightarrow>
          i \<in> {16, 17, 18, 19} \<longrightarrow>
          py_float decimal_float
            (data_get [''risk_score_internal'' \<mapsto> JFloat 0.8] (FEATURE_ORDER ! i) (JInt 0)) =
            Inr (v ! i) \<and>
          ([''risk_score_internal'' \<mapsto> JFloat 0.8] (FEATURE_ORDER ! i) = None \<longrightarrow> v ! i = 0)"
    by (elim conjE)
  from this [rule_format, OF sample_risk_score i] sample_risk_score i show ?thesis
    by (intro conjI) (elim conjE, assumption)+
qed

end
